theory Spec2Isabelle
  imports Complex_Main
begin

section \<open>Python values\<close>

text \<open>
  The values that flow through \<^verbatim>\<open>langfuse_handler.py\<close> and
  \<^verbatim>\<open>eval_generator.py\<close>. The constructors follow the case analysis that
  \<^verbatim>\<open>make_serializable\<close> performs on a value:
  \<^item> \<open>PDict\<close>: an instance of \<^verbatim>\<open>dict\<close>, its items in insertion order;
  \<^item> \<open>PList\<close>: an instance of \<^verbatim>\<open>list\<close>;
  \<^item> \<open>PObj d\<close>: any other object that has a \<^verbatim>\<open>__dict__\<close>, where \<open>d\<close> is the
    value of \<^verbatim>\<open>obj.__dict__\<close>;
  \<^item> \<open>PStr\<close>, \<open>PBytes\<close>: text and binary values without a \<^verbatim>\<open>__dict__\<close>;
  \<^item> \<open>PNone\<close>, \<open>PBool\<close>, \<open>PInt\<close>: the scalars the code itself produces or tests;
  \<^item> \<open>POther s t\<close>: any other object without a \<^verbatim>\<open>__dict__\<close> (a float, a tuple,
    a datetime, ...), given by the text \<open>s\<close> that \<^verbatim>\<open>str()\<close> returns for it and
    by its truth value \<open>t\<close>.
  Values are finite trees: an object graph with a cycle is not a value of this type.
  Keys of a \<open>PDict\<close> are compared with HOL equality.
\<close>

datatype pyval =
    PNone
  | PBool bool
  | PInt int
  | PStr string
  | PBytes string
  | PList "pyval list"
  | PDict "(pyval \<times> pyval) list"
  | PObj pyval
  | POther string bool

type_synonym pydict = "(pyval \<times> pyval) list"

datatype error =
    AttributeError string
  | KeyError pyval
  | TypeError string
  | IndexError
  | RemoteError string

subsection \<open>Dictionaries\<close>

text \<open>
  A Python \<^verbatim>\<open>dict\<close> keeps its keys in insertion order; storing under a key that
  is already present replaces the value and keeps the key's position.
\<close>

fun dict_get :: "('k \<times> 'v) list \<Rightarrow> 'k \<Rightarrow> 'v option" where
  "dict_get [] k = None"
| "dict_get ((k', v) # d) k = (if k' = k then Some v else dict_get d k)"

fun dict_set :: "('k \<times> 'v) list \<Rightarrow> 'k \<Rightarrow> 'v \<Rightarrow> ('k \<times> 'v) list" where
  "dict_set [] k v = [(k, v)]"
| "dict_set ((k', v') # d) k v =
     (if k' = k then (k', v) # d else (k', v') # dict_set d k v)"

definition dict_keys :: "('k \<times> 'v) list \<Rightarrow> 'k list" where
  "dict_keys d = map fst d"

definition dict_del :: "('k \<times> 'v) list \<Rightarrow> 'k \<Rightarrow> ('k \<times> 'v) list" where
  "dict_del d k = filter (\<lambda>kv. fst kv \<noteq> k) d"

text \<open>\<^verbatim>\<open>{**a, **b}\<close> and the dict comprehension: the items are stored one by one, left to right.\<close>

definition dict_update :: "('k \<times> 'v) list \<Rightarrow> ('k \<times> 'v) list \<Rightarrow> ('k \<times> 'v) list" where
  "dict_update d kvs = foldl (\<lambda>acc kv. dict_set acc (fst kv) (snd kv)) d kvs"

definition dict_of_items :: "('k \<times> 'v) list \<Rightarrow> ('k \<times> 'v) list" where
  "dict_of_items kvs = dict_update [] kvs"

subsection \<open>Text of scalars, truth values\<close>

fun str_nat :: "nat \<Rightarrow> string" where
  "str_nat n =
     (if n < 10 then [''0123456789'' ! n]
      else str_nat (n div 10) @ [''0123456789'' ! (n mod 10)])"

definition str_int :: "int \<Rightarrow> string" where
  "str_int i = (if i < 0 then CHR ''-'' # str_nat (nat (- i)) else str_nat (nat i))"

text \<open>Python's truth test (\<^verbatim>\<open>if x\<close>, \<^verbatim>\<open>not x\<close>); an object with a \<^verbatim>\<open>__dict__\<close> is taken as true.\<close>

fun truthy :: "pyval \<Rightarrow> bool" where
  "truthy PNone = False"
| "truthy (PBool b) = b"
| "truthy (PInt i) = (i \<noteq> 0)"
| "truthy (PStr s) = (s \<noteq> [])"
| "truthy (PBytes s) = (s \<noteq> [])"
| "truthy (PList xs) = (xs \<noteq> [])"
| "truthy (PDict d) = (d \<noteq> [])"
| "truthy (PObj d) = True"
| "truthy (POther s t) = t"

section \<open>ExperimentRunner.make\_serializable\<close>

text \<open>
  \<^verbatim>\<open>
  def make_serializable(self, obj):
      if isinstance(obj, dict):
          return {k: self.make_serializable(v) for k, v in obj.items()}
      elif isinstance(obj, list):
          return [self.make_serializable(v) for v in obj]
      elif hasattr(obj, '__dict__'):
          return self.make_serializable(obj.__dict__)
      elif hasattr(obj, '__str__') and not isinstance(obj, (str, bytes)):
          return str(obj)
      else:
          return obj
  \<close>
  Every Python object has \<^verbatim>\<open>__str__\<close>, so the last branch is taken by text and
  binary values only.
\<close>

fun make_serializable :: "pyval \<Rightarrow> pyval" where
  "make_serializable (PDict d) =
     PDict (dict_of_items (map (\<lambda>kv. (fst kv, make_serializable (snd kv))) d))"
| "make_serializable (PList xs) = PList (map make_serializable xs)"
| "make_serializable (PObj d) = make_serializable d"
| "make_serializable PNone = PStr ''None''"
| "make_serializable (PBool b) = PStr (if b then ''True'' else ''False'')"
| "make_serializable (PInt i) = PStr (str_int i)"
| "make_serializable (POther s t) = PStr s"
| "make_serializable (PStr s) = PStr s"
| "make_serializable (PBytes s) = PBytes s"


section \<open>Attribute access, subscripts, keyword arguments\<close>

text \<open>
  The reads \<^verbatim>\<open>item.id\<close>, \<^verbatim>\<open>item.input\<close> and \<^verbatim>\<open>trace.metadata\<close> are of fields
  that the SDK's objects keep in their instance dictionary: \<^verbatim>\<open>obj.a\<close> raises
  \<^verbatim>\<open>AttributeError\<close> when \<open>a\<close> is not in it. (The lookup of a name chosen by the
  caller, \<^verbatim>\<open>getattr(obj, a, None)\<close>, is \<open>getattr_default\<close> below; it also asks
  the object's type.)
\<close>

definition getattr :: "pyval \<Rightarrow> string \<Rightarrow> error + pyval" where
  "getattr obj a =
     (case obj of
        PObj (PDict d) \<Rightarrow>
          (case dict_get d (PStr a) of
             Some v \<Rightarrow> Inr v
           | None \<Rightarrow> Inl (AttributeError a))
      | _ \<Rightarrow> Inl (AttributeError a))"

text \<open>\<^verbatim>\<open>obj.a = v\<close> on an object with an instance dictionary.\<close>

definition setattr :: "pyval \<Rightarrow> string \<Rightarrow> pyval \<Rightarrow> pyval" where
  "setattr obj a v =
     (case obj of
        PObj (PDict d) \<Rightarrow> PObj (PDict (dict_set d (PStr a) v))
      | _ \<Rightarrow> obj)"

text \<open>\<^verbatim>\<open>v['name']\<close>: only a dict can be subscripted by a string.\<close>

definition getitem :: "pyval \<Rightarrow> string \<Rightarrow> error + pyval" where
  "getitem v name =
     (case v of
        PDict d \<Rightarrow>
          (case dict_get d (PStr name) of
             Some x \<Rightarrow> Inr x
           | None \<Rightarrow> Inl (KeyError (PStr name)))
      | _ \<Rightarrow> Inl (TypeError ''subscript''))"

text \<open>\<^verbatim>\<open>v['name'] = x\<close>: item assignment with a string key.\<close>

definition setitem :: "pyval \<Rightarrow> string \<Rightarrow> pyval \<Rightarrow> error + pyval" where
  "setitem v name x =
     (case v of
        PDict d \<Rightarrow> Inr (PDict (dict_set d (PStr name) x))
      | _ \<Rightarrow> Inl (TypeError ''item assignment''))"

text \<open>Lists and dicts cannot be dictionary keys; every other value is taken as hashable.\<close>

fun hashable :: "pyval \<Rightarrow> bool" where
  "hashable (PList xs) = False"
| "hashable (PDict d) = False"
| "hashable v = True"

text \<open>What a \<^verbatim>\<open>for\<close> loop iterates over.\<close>

fun py_iter :: "pyval \<Rightarrow> error + pyval list" where
  "py_iter (PList xs) = Inr xs"
| "py_iter (PDict d) = Inr (dict_keys d)"
| "py_iter (PStr s) = Inr (map (\<lambda>c. PStr [c]) s)"
| "py_iter (PBytes s) = Inr (map (\<lambda>c. PInt (of_char c)) s)"
| "py_iter v = Inl (TypeError ''not iterable'')"

fun is_str :: "pyval \<Rightarrow> bool" where
  "is_str (PStr s) = True"
| "is_str v = False"

text \<open>
  \<^verbatim>\<open>f(name=..., **kw)\<close>: \<open>kw\<close> must be a mapping with string keys, none of them
  one of the names given explicitly.
\<close>

definition kwargs :: "string list \<Rightarrow> pyval \<Rightarrow> error + pydict" where
  "kwargs explicit kw =
     (case kw of
        PDict d \<Rightarrow>
          (if \<not> list_all is_str (dict_keys d) then Inl (TypeError ''keywords must be strings'')
           else if list_ex (\<lambda>n. PStr n \<in> set (dict_keys d)) explicit
             then Inl (TypeError ''multiple values for keyword argument'')
           else Inr d)
      | _ \<Rightarrow> Inl (TypeError ''argument after ** must be a mapping''))"

text \<open>
  The text an f-string puts for \<^verbatim>\<open>{value}\<close>, which is \<^verbatim>\<open>str(value)\<close>. For
  bytes, lists, dicts and objects with an instance dictionary Python builds it from
  \<^verbatim>\<open>repr\<close>; that builtin is the parameter \<open>repr_of\<close>.
\<close>

definition py_str :: "(pyval \<Rightarrow> string) \<Rightarrow> pyval \<Rightarrow> string" where
  "py_str repr_of v =
     (case v of
        PNone \<Rightarrow> ''None''
      | PBool b \<Rightarrow> (if b then ''True'' else ''False'')
      | PInt i \<Rightarrow> str_int i
      | PStr s \<Rightarrow> s
      | POther s t \<Rightarrow> s
      | _ \<Rightarrow> repr_of v)"

fun join :: "string \<Rightarrow> string list \<Rightarrow> string" where
  "join sep [] = []"
| "join sep [x] = x"
| "join sep (x # y # ys) = x @ sep @ join sep (y # ys)"

section \<open>Events\<close>

text \<open>
  The calls the code makes to its collaborators (the observability store, the inference
  client, the HTTP library, \<^verbatim>\<open>time.sleep\<close>, \<^verbatim>\<open>print\<close>), in the order it makes
  them. A sleep is recorded with its duration in seconds, an exact rational where the
  code holds a float.
\<close>

datatype event =
    Compile pydict
  | ChatCreate pyval pydict
  | ItemRun pyval string pydict
  | StartGeneration string pyval pyval pyval
  | GenerationUpdate pyval
  | TraceUpdate pyval pyval
  | Evaluate pyval pyval
  | Sleep rat
  | GetPrompt string
  | GetDataset string
  | HttpGet string pydict
  | Print string
  | TraceGet pyval

fun sleeps :: "event list \<Rightarrow> rat list" where
  "sleeps [] = []"
| "sleeps (Sleep d # evs) = d # sleeps evs"
| "sleeps (ev # evs) = sleeps evs"

definition total_sleep :: "event list \<Rightarrow> rat" where
  "total_sleep evs = sum_list (sleeps evs)"

fun processed :: "event list \<Rightarrow> pyval list" where
  "processed [] = []"
| "processed (ItemRun item run_name params # evs) = item # processed evs"
| "processed (ev # evs) = processed evs"

text \<open>The payloads the template was compiled with, in order.\<close>

fun compiled :: "event list \<Rightarrow> pydict list" where
  "compiled [] = []"
| "compiled (Compile kw # evs) = kw # compiled evs"
| "compiled (ev # evs) = compiled evs"

text \<open>The trace ids fetched, in order.\<close>

fun fetched :: "event list \<Rightarrow> pyval list" where
  "fetched [] = []"
| "fetched (TraceGet trace_id # evs) = trace_id # fetched evs"
| "fetched (ev # evs) = fetched evs"

text \<open>Blocks of events with \<open>sep\<close> between each two neighbours and nowhere else.\<close>

fun separated :: "'a list \<Rightarrow> 'a list list \<Rightarrow> 'a list" where
  "separated sep [] = []"
| "separated sep [b] = b"
| "separated sep (b # c # bs) = b @ sep @ separated sep (c # bs)"

text \<open>
  \<^verbatim>\<open>sleep_time = 60.0 / requests_per_minute if requests_per_minute > 0 else 0\<close>
\<close>

definition sleep_time_of :: "int \<Rightarrow> rat" where
  "sleep_time_of requests_per_minute =
     (if requests_per_minute > 0 then 60 / of_int requests_per_minute else 0)"

definition sleep_events :: "rat \<Rightarrow> event list" where
  "sleep_events sleep_time = (if sleep_time > 0 then [Sleep sleep_time] else [])"


section \<open>PromptRunner\<close>

text \<open>
  The prompt object that \<^verbatim>\<open>langfuse.get_prompt\<close> returns: its name, its stored
  configuration (the attribute \<^verbatim>\<open>config\<close>, a dict) and its \<^verbatim>\<open>compile\<close>
  method, which belongs to the observability SDK.
\<close>

record prompt =
  p_name :: string
  p_config :: pydict
  p_compile :: "pydict \<Rightarrow> error + pyval"

text \<open>
  A \<^verbatim>\<open>PromptRunner\<close>: \<^verbatim>\<open>self.model_client.chat.completions.create\<close> (it returns
  the \<^verbatim>\<open>message.content\<close> of each choice) and \<^verbatim>\<open>self.prompt\<close>.
\<close>

record prompt_runner =
  model_client :: "pyval \<Rightarrow> pydict \<Rightarrow> error + pyval list"
  prompt :: prompt

text \<open>
  \<^verbatim>\<open>', '.join([f"'{key}': {value}" for key, value in json_schema.items()])\<close>
\<close>

definition render_schema :: "(pyval \<Rightarrow> string) \<Rightarrow> pydict \<Rightarrow> string" where
  "render_schema repr_of kvs =
     join '', ''
       (map (\<lambda>kv. [CHR 0x27] @ py_str repr_of (fst kv) @ [CHR 0x27] @ '': '' @ py_str repr_of (snd kv))
          kvs)"

text \<open>
  \<^verbatim>\<open>
  if json_schema:
      input_data['json_schema_str'] = ', '.join([... json_schema.items()])
  \<close>
  A true value that is not a dict has no \<^verbatim>\<open>items\<close>.
\<close>

definition inject_schema :: "(pyval \<Rightarrow> string) \<Rightarrow> pyval \<Rightarrow> pyval \<Rightarrow> error + pyval" where
  "inject_schema repr_of json_schema input_data =
     (if truthy json_schema then
        (case json_schema of
           PDict kvs \<Rightarrow> setitem input_data ''json_schema_str'' (PStr (render_schema repr_of kvs))
         | _ \<Rightarrow> Inl (AttributeError ''items''))
      else Inr input_data)"

text \<open>
  \<^verbatim>\<open>
  messages = self.prompt.compile(**input_data)
  response = self.model_client.chat.completions.create(messages=messages, **config)
  return response.choices[0].message.content
  \<close>
\<close>

definition call_model :: "prompt_runner \<Rightarrow> pyval \<Rightarrow> pydict \<Rightarrow> (error + pyval) \<times> event list" where
  "call_model self input_data config =
     (case kwargs [] input_data of
        Inl e \<Rightarrow> (Inl e, [])
      | Inr kw \<Rightarrow>
          (case p_compile (prompt self) kw of
             Inl e \<Rightarrow> (Inl e, [Compile kw])
           | Inr messages \<Rightarrow>
               (case kwargs [''messages''] (PDict config) of
                  Inl e \<Rightarrow> (Inl e, [Compile kw])
                | Inr ckw \<Rightarrow>
                    (case model_client self messages ckw of
                       Inl e \<Rightarrow> (Inl e, [Compile kw, ChatCreate messages ckw])
                     | Inr choices \<Rightarrow>
                         (case choices of
                            [] \<Rightarrow> (Inl IndexError, [Compile kw, ChatCreate messages ckw])
                          | c # cs \<Rightarrow> (Inr c, [Compile kw, ChatCreate messages ckw]))))))"

text \<open>
  What one call of \<^verbatim>\<open>run_prompt\<close> leaves behind: the value returned or the
  exception raised, the runner (whose \<^verbatim>\<open>self.prompt.config\<close> the call may have
  changed), the caller's \<^verbatim>\<open>input_data\<close> and \<^verbatim>\<open>config\<close> objects, and the calls
  made.
\<close>

record run_prompt_out =
  rp_result :: "error + pyval"
  rp_self :: prompt_runner
  rp_input_data :: pyval
  rp_config :: pydict
  rp_events :: "event list"

text \<open>
  \<^verbatim>\<open>
  def run_prompt(self, input_data: dict, config: dict = {}) -> str:
      if not config:
          config = self.prompt.config
      json_schema = config.pop('json_schema', {})
      if json_schema:
          input_data['json_schema_str'] = ...
      messages = self.prompt.compile(**input_data)
      response = self.model_client.chat.completions.create(messages=messages, **config)
      return response.choices[0].message.content
  \<close>
  An absent or empty \<open>config\<close> is \<open>[]\<close>. Then the local name \<^verbatim>\<open>config\<close> is bound to
  the very dict stored in \<^verbatim>\<open>self.prompt.config\<close>, and \<^verbatim>\<open>pop\<close> removes the key from
  that stored dict; otherwise \<^verbatim>\<open>pop\<close> removes it from the caller's dict.
\<close>

definition run_prompt :: "(pyval \<Rightarrow> string) \<Rightarrow> prompt_runner \<Rightarrow> pyval \<Rightarrow> pydict \<Rightarrow> run_prompt_out" where
  "run_prompt repr_of self input_data config =
     (let aliased = (config = []);
          cfg = (if aliased then p_config (prompt self) else config);
          json_schema = (case dict_get cfg (PStr ''json_schema'') of Some v \<Rightarrow> v | None \<Rightarrow> PDict []);
          cfg' = dict_del cfg (PStr ''json_schema'');
          self' = (if aliased then self\<lparr>prompt := (prompt self)\<lparr>p_config := cfg'\<rparr>\<rparr> else self);
          config' = (if aliased then config else cfg')
      in case inject_schema repr_of json_schema input_data of
           Inl e \<Rightarrow>
             \<lparr>rp_result = Inl e, rp_self = self', rp_input_data = input_data,
              rp_config = config', rp_events = []\<rparr>
         | Inr input' \<Rightarrow>
             (case call_model self' input' cfg' of
                (res, evs) \<Rightarrow>
                  \<lparr>rp_result = res, rp_self = self', rp_input_data = input',
                   rp_config = config', rp_events = evs\<rparr>))"

section \<open>The remote collaborators\<close>

record dataset =
  ds_id :: pyval
  ds_items :: "pyval list"

text \<open>The response of \<^verbatim>\<open>requests.get\<close>; \<open>resp_json\<close> is what \<^verbatim>\<open>response.json()\<close> gives.\<close>

record response =
  resp_status :: int
  resp_reason :: string
  resp_url :: string
  resp_text :: string
  resp_json :: "error + pyval"

text \<open>
  The process environment, the observability client (\<^verbatim>\<open>get_client()\<close>), the
  inference client (\<^verbatim>\<open>OpenAI()\<close>) and the HTTP library; each call either returns
  or raises. With them, what the types of the SDK's objects answer in an attribute
  lookup: \<open>data_attr obj a\<close> is the value of a property or of a special name
  (\<^verbatim>\<open>__dict__\<close>, \<^verbatim>\<open>__class__\<close>, ...), which the type answers before the instance
  dictionary is looked at; \<open>class_attr obj a\<close> is the method or class attribute that
  the type answers when the instance dictionary has no entry.
\<close>

record services =
  environ :: "string \<Rightarrow> string option"
  get_prompt :: "string \<Rightarrow> error + prompt"
  get_dataset :: "string \<Rightarrow> error + dataset"
  openai :: "pyval \<Rightarrow> pydict \<Rightarrow> error + pyval list"
  requests_get :: "string \<Rightarrow> string \<times> string \<Rightarrow> pydict \<Rightarrow> error + response"
  trace_get :: "pyval \<Rightarrow> error + pyval"
  data_attr :: "pyval \<Rightarrow> string \<Rightarrow> pyval option"
  class_attr :: "pyval \<Rightarrow> string \<Rightarrow> pyval option"

text \<open>
  Python's attribute lookup for a name: a property or special name of the type first,
  then the instance dictionary, then a method or class attribute.
\<close>

definition find_attr :: "services \<Rightarrow> pyval \<Rightarrow> string \<Rightarrow> pyval option" where
  "find_attr sv obj a =
     (case data_attr sv obj a of
        Some v \<Rightarrow> Some v
      | None \<Rightarrow>
          (case getattr obj a of
             Inr v \<Rightarrow> Some v
           | Inl e \<Rightarrow> class_attr sv obj a))"

text \<open>\<^verbatim>\<open>getattr(obj, a, dflt)\<close> and \<^verbatim>\<open>hasattr(obj, a)\<close>.\<close>

definition getattr_default :: "services \<Rightarrow> pyval \<Rightarrow> string \<Rightarrow> pyval \<Rightarrow> pyval" where
  "getattr_default sv obj a dflt =
     (case find_attr sv obj a of Some v \<Rightarrow> v | None \<Rightarrow> dflt)"

definition hasattr :: "services \<Rightarrow> pyval \<Rightarrow> string \<Rightarrow> bool" where
  "hasattr sv obj a = (case find_attr sv obj a of Some v \<Rightarrow> True | None \<Rightarrow> False)"

text \<open>
  \<^verbatim>\<open>PromptRunner.__init__\<close> with the default model client; loading the
  \<^verbatim>\<open>.env\<close> file is left out.
\<close>

definition PromptRunner_init :: "services \<Rightarrow> string \<Rightarrow> error + prompt_runner" where
  "PromptRunner_init sv prompt_name =
     (case get_prompt sv prompt_name of
        Inl e \<Rightarrow> Inl e
      | Inr p \<Rightarrow> Inr \<lparr>model_client = openai sv, prompt = p\<rparr>)"


section \<open>ExperimentRunner\<close>

text \<open>
  \<^verbatim>\<open>
  def __init__(self, env_path: str = None):
      if env_path:
          dotenv.load_dotenv(env_path)
          ...
      self.langfuse = get_client()
  \<close>
  The constructor assigns \<^verbatim>\<open>self.langfuse\<close> and nothing else: the object has no
  attribute \<^verbatim>\<open>env_path\<close> unless its user assigns one later. \<open>er_env_path\<close> is
  that attribute when the object has it.
\<close>

record experiment_runner =
  er_env_path :: "pyval option"

definition ExperimentRunner_init :: "pyval \<Rightarrow> experiment_runner" where
  "ExperimentRunner_init env_path = \<lparr>er_env_path = None\<rparr>"

text \<open>
  \<^verbatim>\<open>prompt_app\<close>: the generation is opened with the prompt's name, the input, the
  metadata and \<^verbatim>\<open>prompt_runner.prompt.config['model']\<close>; then
  \<^verbatim>\<open>self.run_prompt(prompt_runner, input_data)\<close>, which calls
  \<^verbatim>\<open>prompt_runner.run_prompt(input_data)\<close> with no \<open>config\<close>; then the output is
  written to the generation and to the trace. It returns the response, the runner and
  the input object as the call left them, and the calls made.
\<close>

definition prompt_app ::
  "(pyval \<Rightarrow> string) \<Rightarrow> prompt_runner \<Rightarrow> pyval \<Rightarrow> pyval \<Rightarrow> string
    \<Rightarrow> (error + pyval) \<times> prompt_runner \<times> pyval \<times> event list" where
  "prompt_app repr_of pr input_data item_id run_name =
     (case getitem (PDict (p_config (prompt pr))) ''model'' of
        Inl e \<Rightarrow> (Inl e, pr, input_data, [])
      | Inr model \<Rightarrow>
          (let start = StartGeneration (p_name (prompt pr) @ ''-llm-call'') input_data
                         (PDict [(PStr ''item_id'', item_id), (PStr ''run'', PStr run_name)]) model;
               out = run_prompt repr_of pr input_data []
           in case rp_result out of
                Inl e \<Rightarrow> (Inl e, rp_self out, rp_input_data out, start # rp_events out)
              | Inr response \<Rightarrow>
                  (Inr response, rp_self out, rp_input_data out,
                   start # rp_events out
                     @ [GenerationUpdate response, TraceUpdate (rp_input_data out) response])))"

text \<open>
  The body of the loop of \<^verbatim>\<open>run_experiment\<close> for one item, up to the sleep:
  \<^verbatim>\<open>
  with item.run(run_name=experiment_name, **experiment_params) as root_span:
      response = self.prompt_app(prompt_runner, item.input, item.id, experiment_name)
      if evaluator is not None:
          evaluator(response, item, root_span)
  \<close>
  The evaluator is a function of the response and the item that may raise.
\<close>

definition run_experiment_item ::
  "(pyval \<Rightarrow> string) \<Rightarrow> (pyval \<Rightarrow> pyval \<Rightarrow> error option) option \<Rightarrow> string \<Rightarrow> pyval
    \<Rightarrow> prompt_runner \<Rightarrow> pyval \<Rightarrow> error option \<times> prompt_runner \<times> event list" where
  "run_experiment_item repr_of evaluator experiment_name experiment_params pr item =
     (case kwargs [''run_name''] experiment_params of
        Inl e \<Rightarrow> (Some e, pr, [])
      | Inr params \<Rightarrow>
          (case getattr item ''input'' of
             Inl e \<Rightarrow> (Some e, pr, [ItemRun item experiment_name params])
           | Inr input_data \<Rightarrow>
               (case getattr item ''id'' of
                  Inl e \<Rightarrow> (Some e, pr, [ItemRun item experiment_name params])
                | Inr item_id \<Rightarrow>
                    (case prompt_app repr_of pr input_data item_id experiment_name of
                       (res, pr', input', evs) \<Rightarrow>
                         (case res of
                            Inl e \<Rightarrow> (Some e, pr', ItemRun item experiment_name params # evs)
                          | Inr response \<Rightarrow>
                              (case evaluator of
                                 None \<Rightarrow> (None, pr', ItemRun item experiment_name params # evs)
                               | Some ev \<Rightarrow>
                                   (let item' = setattr item ''input'' input'
                                    in (ev response item', pr',
                                        ItemRun item experiment_name params # evs
                                          @ [Evaluate response item']))))))))"

text \<open>
  \<^verbatim>\<open>
  for item in tqdm(dataset.items[:test_count], ...):
      with item.run(...) as root_span:
          ...
      if sleep_time > 0:
          time.sleep(sleep_time)  # Sleep between requests
  \<close>
  An exception in an item leaves the loop; the one runner serves every item.
\<close>

fun experiment_loop ::
  "(pyval \<Rightarrow> string) \<Rightarrow> (pyval \<Rightarrow> pyval \<Rightarrow> error option) option \<Rightarrow> string \<Rightarrow> pyval \<Rightarrow> rat
    \<Rightarrow> prompt_runner \<Rightarrow> pyval list \<Rightarrow> error option \<times> prompt_runner \<times> event list" where
  "experiment_loop repr_of evaluator name params sleep_time pr [] = (None, pr, [])"
| "experiment_loop repr_of evaluator name params sleep_time pr (item # items) =
     (case run_experiment_item repr_of evaluator name params pr item of
        (Some e, pr', evs) \<Rightarrow> (Some e, pr', evs)
      | (None, pr', evs) \<Rightarrow>
          (case experiment_loop repr_of evaluator name params sleep_time pr' items of
             (r, pr'', evs') \<Rightarrow> (r, pr'', evs @ sleep_events sleep_time @ evs')))"

text \<open>
  The events of the loop body for each item in turn, the runner handed on from item to
  item as the loop does.
\<close>

fun item_blocks ::
  "(pyval \<Rightarrow> string) \<Rightarrow> (pyval \<Rightarrow> pyval \<Rightarrow> error option) option \<Rightarrow> string \<Rightarrow> pyval
    \<Rightarrow> prompt_runner \<Rightarrow> pyval list \<Rightarrow> event list list" where
  "item_blocks repr_of evaluator name params pr [] = []"
| "item_blocks repr_of evaluator name params pr (item # items) =
     (case run_experiment_item repr_of evaluator name params pr item of
        (r, pr', evs) \<Rightarrow> evs # item_blocks repr_of evaluator name params pr' items)"

text \<open>The slice \<^verbatim>\<open>xs[:stop]\<close>; a negative \<open>stop\<close> counts from the end.\<close>

definition slice_to :: "'a list \<Rightarrow> int option \<Rightarrow> 'a list" where
  "slice_to xs stop =
     (case stop of
        None \<Rightarrow> xs
      | Some n \<Rightarrow> (if 0 \<le> n then take (nat n) xs else take (nat (int (length xs) + n)) xs))"

text \<open>
  \<^verbatim>\<open>
  def run_experiment(self, experiment_name, prompt_name, dataset_name, evaluator=None,
                     experiment_params={}, test_count=None, requests_per_minute=1000):
      prompt_runner = PromptRunner(prompt_name, env_path=self.env_path)
      dataset = self.langfuse.get_dataset(dataset_name)
      sleep_time = 60.0 / requests_per_minute if requests_per_minute > 0 else 0
      for item in tqdm(dataset.items[:test_count], ...):
          ...
  \<close>
  The first statement reads \<^verbatim>\<open>self.env_path\<close>. A normal return gives \<open>PNone\<close>.
\<close>

definition run_experiment ::
  "(pyval \<Rightarrow> string) \<Rightarrow> services \<Rightarrow> experiment_runner \<Rightarrow> string \<Rightarrow> string \<Rightarrow> string
    \<Rightarrow> (pyval \<Rightarrow> pyval \<Rightarrow> error option) option \<Rightarrow> pyval \<Rightarrow> int option \<Rightarrow> int
    \<Rightarrow> (error + pyval) \<times> event list" where
  "run_experiment repr_of sv self experiment_name prompt_name dataset_name evaluator
       experiment_params test_count requests_per_minute =
     (case er_env_path self of
        None \<Rightarrow> (Inl (AttributeError ''env_path''), [])
      | Some env_path \<Rightarrow>
          (case PromptRunner_init sv prompt_name of
             Inl e \<Rightarrow> (Inl e, [GetPrompt prompt_name])
           | Inr pr \<Rightarrow>
               (case get_dataset sv dataset_name of
                  Inl e \<Rightarrow> (Inl e, [GetPrompt prompt_name, GetDataset dataset_name])
                | Inr ds \<Rightarrow>
                    (case experiment_loop repr_of evaluator experiment_name experiment_params
                            (sleep_time_of requests_per_minute) pr
                            (slice_to (ds_items ds) test_count) of
                       (r, pr', evs) \<Rightarrow>
                         ((case r of Some e \<Rightarrow> Inl e | None \<Rightarrow> Inr PNone),
                          [GetPrompt prompt_name, GetDataset dataset_name] @ evs)))))"

text \<open>The default of \<^verbatim>\<open>requests_per_minute\<close> in \<^verbatim>\<open>run_experiment\<close>.\<close>

definition run_experiment_default_rpm :: int where
  "run_experiment_default_rpm = 1000"

section \<open>ExperimentRunner.get\_dataset\_run\<close>

text \<open>
  \<^verbatim>\<open>response.raise_for_status()\<close> of the HTTP library raises \<^verbatim>\<open>HTTPError\<close> for a
  status from 400 to 599, with this message, and returns otherwise.
\<close>

definition raise_for_status :: "response \<Rightarrow> string option" where
  "raise_for_status r =
     (if 400 \<le> resp_status r \<and> resp_status r < 500
        then Some (str_int (resp_status r) @ '' Client Error: '' @ resp_reason r
                     @ '' for url: '' @ resp_url r)
      else if 500 \<le> resp_status r \<and> resp_status r < 600
        then Some (str_int (resp_status r) @ '' Server Error: '' @ resp_reason r
                     @ '' for url: '' @ resp_url r)
      else None)"

text \<open>\<^verbatim>\<open>item_lookup = {item.id: item for item in dataset.items}\<close>\<close>

fun build_lookup :: "pyval list \<Rightarrow> pydict \<Rightarrow> error + pydict" where
  "build_lookup [] acc = Inr acc"
| "build_lookup (item # items) acc =
     (case getattr item ''id'' of
        Inl e \<Rightarrow> Inl e
      | Inr k \<Rightarrow>
          (if hashable k then build_lookup items (dict_set acc k item)
           else Inl (TypeError ''unhashable type'')))"

text \<open>\<^verbatim>\<open>item_lookup[k]\<close>\<close>

definition lookup_item :: "pydict \<Rightarrow> pyval \<Rightarrow> error + pyval" where
  "lookup_item item_lookup k =
     (if \<not> hashable k then Inl (TypeError ''unhashable type'')
      else case dict_get item_lookup k of
             None \<Rightarrow> Inl (KeyError k)
           | Some item \<Rightarrow> Inr item)"

text \<open>
  \<^verbatim>\<open>
  trace_dict = {attr: getattr(trace, attr, None) for attr in trace_info}
  item_dict = {attr: getattr(item, attr, None) for attr in dataset_item_info}
  combined_dict = {**trace_dict, **item_dict}
  \<close>
\<close>

definition merge_record ::
  "services \<Rightarrow> string list \<Rightarrow> string list \<Rightarrow> pyval \<Rightarrow> pyval \<Rightarrow> pydict" where
  "merge_record sv trace_info dataset_item_info trace item =
     (let trace_dict =
            dict_of_items (map (\<lambda>attr. (PStr attr, getattr_default sv trace attr PNone)) trace_info);
          item_dict =
            dict_of_items
              (map (\<lambda>attr. (PStr attr, getattr_default sv item attr PNone)) dataset_item_info)
      in dict_update (dict_update [] trace_dict) item_dict)"

text \<open>
  The body of the loop of \<^verbatim>\<open>get_dataset_run\<close> for one run item, up to the sleep:
  \<^verbatim>\<open>
  trace = self.langfuse.api.trace.get(trace['traceId'])
  item = item_lookup[trace.metadata['dataset_item_id']]
  ...
  run_traces.append(combined_dict)
  \<close>
\<close>

definition fetch_trace ::
  "services \<Rightarrow> pydict \<Rightarrow> string list \<Rightarrow> string list \<Rightarrow> pyval \<Rightarrow> (error + pydict) \<times> event list" where
  "fetch_trace sv item_lookup trace_info dataset_item_info run_item =
     (case getitem run_item ''traceId'' of
        Inl e \<Rightarrow> (Inl e, [])
      | Inr trace_id \<Rightarrow>
          (case trace_get sv trace_id of
             Inl e \<Rightarrow> (Inl e, [TraceGet trace_id])
           | Inr trace \<Rightarrow>
               (case getattr trace ''metadata'' of
                  Inl e \<Rightarrow> (Inl e, [TraceGet trace_id])
                | Inr metadata \<Rightarrow>
                    (case getitem metadata ''dataset_item_id'' of
                       Inl e \<Rightarrow> (Inl e, [TraceGet trace_id])
                     | Inr item_id \<Rightarrow>
                         (case lookup_item item_lookup item_id of
                            Inl e \<Rightarrow> (Inl e, [TraceGet trace_id])
                          | Inr item \<Rightarrow>
                              (Inr (merge_record sv trace_info dataset_item_info trace item),
                               [TraceGet trace_id]))))))"

text \<open>
  \<^verbatim>\<open>
  for trace in tqdm(run_items, ...):
      ...
      run_traces.append(combined_dict)
      if sleep_time > 0:
          time.sleep(sleep_time)  # Sleep between requests
  \<close>
\<close>

fun fetch_traces ::
  "services \<Rightarrow> pydict \<Rightarrow> string list \<Rightarrow> string list \<Rightarrow> rat \<Rightarrow> pyval list
    \<Rightarrow> (error + pydict list) \<times> event list" where
  "fetch_traces sv item_lookup trace_info dataset_item_info sleep_time [] = (Inr [], [])"
| "fetch_traces sv item_lookup trace_info dataset_item_info sleep_time (run_item # run_items) =
     (case fetch_trace sv item_lookup trace_info dataset_item_info run_item of
        (Inl e, evs) \<Rightarrow> (Inl e, evs)
      | (Inr combined_dict, evs) \<Rightarrow>
          (case fetch_traces sv item_lookup trace_info dataset_item_info sleep_time run_items of
             (Inl e, evs') \<Rightarrow> (Inl e, evs @ sleep_events sleep_time @ evs')
           | (Inr run_traces, evs') \<Rightarrow>
               (Inr (combined_dict # run_traces), evs @ sleep_events sleep_time @ evs')))"

text \<open>\<^verbatim>\<open>run_items = response.json()['data']\<close>\<close>

definition response_data :: "response \<Rightarrow> error + pyval" where
  "response_data resp =
     (case resp_json resp of
        Inl e \<Rightarrow> Inl e
      | Inr body \<Rightarrow> getitem body ''data'')"

text \<open>
  The part of \<^verbatim>\<open>get_dataset_run\<close> after \<^verbatim>\<open>raise_for_status\<close> has returned:
  \<^verbatim>\<open>
  run_items = response.json()['data']
  sleep_time = 60.0 / requests_per_minute if requests_per_minute > 0 else 0
  run_traces = []
  item_lookup = {item.id: item for item in dataset.items}
  for trace in tqdm(run_items, ...): ...
  serialized_run_traces = [self.make_serializable(trace) for trace in run_traces]
  return serialized_run_traces
  \<close>
\<close>

definition reconcile ::
  "services \<Rightarrow> dataset \<Rightarrow> response \<Rightarrow> int \<Rightarrow> string list \<Rightarrow> string list
    \<Rightarrow> (error + pyval) \<times> event list" where
  "reconcile sv ds resp requests_per_minute trace_info dataset_item_info =
     (case response_data resp of
        Inl e \<Rightarrow> (Inl e, [])
      | Inr data \<Rightarrow>
          (case build_lookup (ds_items ds) [] of
             Inl e \<Rightarrow> (Inl e, [])
           | Inr item_lookup \<Rightarrow>
               (case py_iter data of
                  Inl e \<Rightarrow> (Inl e, [])
                | Inr run_items \<Rightarrow>
                    (case fetch_traces sv item_lookup trace_info dataset_item_info
                            (sleep_time_of requests_per_minute) run_items of
                       (Inl e, evs) \<Rightarrow> (Inl e, evs)
                     | (Inr run_traces, evs) \<Rightarrow>
                         (Inr (PList (map (\<lambda>t. make_serializable (PDict t)) run_traces)),
                          evs)))))"

text \<open>
  The first part of \<^verbatim>\<open>get_dataset_run\<close>, up to the response of the run-items
  endpoint:
  \<^verbatim>\<open>
  url = f"{os.environ['LANGFUSE_HOST']}/api/public/dataset-run-items"
  dataset = self.langfuse.get_dataset(dataset_name)
  datasetId = dataset.id
  response = requests.get(url, auth=(os.environ["LANGFUSE_PUBLIC_KEY"],
                                     os.environ["LANGFUSE_SECRET_KEY"]),
                          params={"datasetId": datasetId, "runName": run_name,
                                  "limit": limit, "response": "json"})
  \<close>
  A missing environment variable is a \<^verbatim>\<open>KeyError\<close>.
\<close>

definition request_run_items ::
  "services \<Rightarrow> string \<Rightarrow> string \<Rightarrow> int \<Rightarrow> (error + dataset \<times> response) \<times> event list" where
  "request_run_items sv dataset_name run_name limit =
     (case environ sv ''LANGFUSE_HOST'' of
        None \<Rightarrow> (Inl (KeyError (PStr ''LANGFUSE_HOST'')), [])
      | Some host \<Rightarrow>
          (case get_dataset sv dataset_name of
             Inl e \<Rightarrow> (Inl e, [GetDataset dataset_name])
           | Inr ds \<Rightarrow>
               (case environ sv ''LANGFUSE_PUBLIC_KEY'' of
                  None \<Rightarrow> (Inl (KeyError (PStr ''LANGFUSE_PUBLIC_KEY'')), [GetDataset dataset_name])
                | Some public_key \<Rightarrow>
                    (case environ sv ''LANGFUSE_SECRET_KEY'' of
                       None \<Rightarrow>
                         (Inl (KeyError (PStr ''LANGFUSE_SECRET_KEY'')), [GetDataset dataset_name])
                     | Some secret_key \<Rightarrow>
                         (let url = host @ ''/api/public/dataset-run-items'';
                              params = [(PStr ''datasetId'', ds_id ds),
                                        (PStr ''runName'', PStr run_name),
                                        (PStr ''limit'', PInt limit),
                                        (PStr ''response'', PStr ''json'')]
                          in case requests_get sv url (public_key, secret_key) params of
                               Inl e \<Rightarrow> (Inl e, [GetDataset dataset_name, HttpGet url params])
                             | Inr resp \<Rightarrow>
                                 (Inr (ds, resp),
                                  [GetDataset dataset_name, HttpGet url params]))))))"

text \<open>
  \<^verbatim>\<open>
  async def get_dataset_run(self, dataset_name, run_name, limit=100, requests_per_minute=25,
                            trace_info=['input', 'output'], dataset_item_info=[]):
      ...
      response = requests.get(...)
      try:
          response.raise_for_status()  # Raises HTTPError for bad responses
      except requests.HTTPError as e:
          print(f"API request failed: {e} - {response.text}")
          return None  # or raise, or handle as appropriate
      run_items = response.json()['data']
      ...
      return serialized_run_traces
  \<close>
  The model is the coroutine run to its end; a return of \<^verbatim>\<open>None\<close> is \<open>Inr PNone\<close>.
\<close>

definition get_dataset_run ::
  "services \<Rightarrow> string \<Rightarrow> string \<Rightarrow> int \<Rightarrow> int \<Rightarrow> string list \<Rightarrow> string list
    \<Rightarrow> (error + pyval) \<times> event list" where
  "get_dataset_run sv dataset_name run_name limit requests_per_minute trace_info dataset_item_info =
     (case request_run_items sv dataset_name run_name limit of
        (Inl e, pre) \<Rightarrow> (Inl e, pre)
      | (Inr (ds, resp), pre) \<Rightarrow>
          (case raise_for_status resp of
             Some msg \<Rightarrow>
               (Inr PNone,
                pre @ [Print (''API request failed: '' @ msg @ '' - '' @ resp_text resp)])
           | None \<Rightarrow>
               (case reconcile sv ds resp requests_per_minute trace_info dataset_item_info of
                  (res, evs) \<Rightarrow> (res, pre @ evs))))"

text \<open>The defaults of \<^verbatim>\<open>get_dataset_run\<close>.\<close>

definition get_dataset_run_default_rpm :: int where
  "get_dataset_run_default_rpm = 25"

definition get_dataset_run_default_trace_info :: "string list" where
  "get_dataset_run_default_trace_info = [''input'', ''output'']"


section \<open>Shapes of serialized values\<close>

text \<open>Text and binary values.\<close>

fun leaf :: "pyval \<Rightarrow> bool" where
  "leaf (PStr s) = True"
| "leaf (PBytes s) = True"
| "leaf v = False"

text \<open>
  A tree of mappings, sequences, text and binary values and nothing else: the keys of
  every mapping are text or binary too.
\<close>

fun plain_tree :: "pyval \<Rightarrow> bool" where
  "plain_tree (PStr s) = True"
| "plain_tree (PBytes s) = True"
| "plain_tree (PList xs) = list_all plain_tree xs"
| "plain_tree (PDict d) = list_all (\<lambda>kv. leaf (fst kv) \<and> plain_tree (snd kv)) d"
| "plain_tree v = False"

text \<open>The same with nothing asked of the keys: every value position is plain.\<close>

fun plain_values :: "pyval \<Rightarrow> bool" where
  "plain_values (PStr s) = True"
| "plain_values (PBytes s) = True"
| "plain_values (PList xs) = list_all plain_values xs"
| "plain_values (PDict d) = list_all (\<lambda>kv. plain_values (snd kv)) d"
| "plain_values v = False"

text \<open>Every mapping met on the walk of \<^verbatim>\<open>make_serializable\<close> has text or binary keys.\<close>

fun text_keys :: "pyval \<Rightarrow> bool" where
  "text_keys (PDict d) = list_all (\<lambda>kv. leaf (fst kv) \<and> text_keys (snd kv)) d"
| "text_keys (PList xs) = list_all text_keys xs"
| "text_keys (PObj d) = text_keys d"
| "text_keys v = True"

text \<open>
  The values that take the fourth branch of \<^verbatim>\<open>make_serializable\<close>: neither a dict,
  a list, an object with a \<^verbatim>\<open>__dict__\<close>, a text nor a binary value.
\<close>

fun converted :: "pyval \<Rightarrow> bool" where
  "converted PNone = True"
| "converted (PBool b) = True"
| "converted (PInt i) = True"
| "converted (POther s t) = True"
| "converted v = False"

section \<open>The scenario of the specification\<close>

text \<open>
  A dataset with the one item \<^verbatim>\<open>{id: "a", input: {x: 1}, expected_output: "foo"}\<close>, a
  prompt with the configuration \<^verbatim>\<open>{model: "m", json_schema: {"s": "skill"}}\<close>, an
  inference client that answers \<^verbatim>\<open>"bar"\<close>, and the trace that a run over the item
  leaves in the store. The values below are test doubles for the remote services;
  their objects are plain ones, whose type answers \<^verbatim>\<open>__dict__\<close> and nothing else.
\<close>

definition scenario_item :: pyval where
  "scenario_item =
     PObj (PDict [(PStr ''id'', PStr ''a''),
                  (PStr ''input'', PDict [(PStr ''x'', PInt 1)]),
                  (PStr ''expected_output'', PStr ''foo'')])"

definition scenario_dataset :: dataset where
  "scenario_dataset = \<lparr>ds_id = PStr ''ds-1'', ds_items = [scenario_item]\<rparr>"

definition scenario_prompt :: prompt where
  "scenario_prompt =
     \<lparr>p_name = ''p'',
      p_config = [(PStr ''model'', PStr ''m''),
                  (PStr ''json_schema'', PDict [(PStr ''s'', PStr ''skill'')])],
      p_compile = (\<lambda>kw. Inr (PList [PDict [(PStr ''role'', PStr ''user''),
                                              (PStr ''content'', PDict kw)]]))\<rparr>"

definition scenario_trace :: pyval where
  "scenario_trace =
     PObj (PDict [(PStr ''id'', PStr ''t-1''),
                  (PStr ''input'', PDict [(PStr ''x'', PInt 1),
                                          (PStr ''json_schema_str'', PStr (CHR 0x27 # ''s'' @ CHR 0x27 # '': skill''))]),
                  (PStr ''output'', PStr ''bar''),
                  (PStr ''metadata'', PDict [(PStr ''dataset_item_id'', PStr ''a''),
                                             (PStr ''run'', PStr ''r'')])])"

definition scenario_response :: response where
  "scenario_response =
     \<lparr>resp_status = 200, resp_reason = ''OK'', resp_url = ''https://h/api/public/dataset-run-items'',
      resp_text = ''{}'',
      resp_json = Inr (PDict [(PStr ''data'', PList [PDict [(PStr ''traceId'', PStr ''t-1'')]])])\<rparr>"

definition scenario_services :: services where
  "scenario_services =
     \<lparr>environ = (\<lambda>name. if name = ''LANGFUSE_HOST'' then Some ''https://h'' else Some ''key''),
      get_prompt = (\<lambda>name. Inr scenario_prompt),
      get_dataset = (\<lambda>name. Inr scenario_dataset),
      openai = (\<lambda>messages config. Inr [PStr ''bar'']),
      requests_get = (\<lambda>url auth params. Inr scenario_response),
      trace_get = (\<lambda>trace_id. Inr scenario_trace),
      data_attr = (\<lambda>obj a. if a = ''__dict__'' then (case obj of PObj d \<Rightarrow> Some d | _ \<Rightarrow> None)
                              else None),
      class_attr = (\<lambda>obj a. None)\<rparr>"

definition scenario_runner :: prompt_runner where
  "scenario_runner = \<lparr>model_client = openai scenario_services, prompt = scenario_prompt\<rparr>"

text \<open>A stand-in for \<^verbatim>\<open>repr\<close>; the scenario never formats a container.\<close>

definition scenario_repr :: "pyval \<Rightarrow> string" where
  "scenario_repr v = ''<object>''"

text \<open>The same services with a run-items endpoint that answers 503.\<close>

definition scenario_down :: services where
  "scenario_down =
     scenario_services\<lparr>requests_get :=
       (\<lambda>url auth params. Inr (scenario_response\<lparr>resp_status := 503,
          resp_reason := ''Service Unavailable'', resp_text := ''down''\<rparr>))\<rparr>"

text \<open>A trace recorded for the item \<^verbatim>\<open>"b"\<close>, which the dataset does not have.\<close>

definition scenario_orphan_trace :: pyval where
  "scenario_orphan_trace =
     PObj (PDict [(PStr ''id'', PStr ''t-1''),
                  (PStr ''output'', PStr ''bar''),
                  (PStr ''metadata'', PDict [(PStr ''dataset_item_id'', PStr ''b'')])])"

definition scenario_orphan :: services where
  "scenario_orphan = scenario_services\<lparr>trace_get := (\<lambda>trace_id. Inr scenario_orphan_trace)\<rparr>"

text \<open>A second item, and the services whose dataset has both.\<close>

definition scenario_item_b :: pyval where
  "scenario_item_b =
     PObj (PDict [(PStr ''id'', PStr ''b''),
                  (PStr ''input'', PDict [(PStr ''x'', PInt 2)]),
                  (PStr ''expected_output'', PStr ''baz'')])"

definition scenario_two_items :: services where
  "scenario_two_items =
     scenario_services\<lparr>get_dataset :=
       (\<lambda>name. Inr \<lparr>ds_id = PStr ''ds-1'', ds_items = [scenario_item, scenario_item_b]\<rparr>)\<rparr>"

text \<open>
  A run over both items: the run-items endpoint lists two traces, one for each item.
\<close>

definition scenario_trace_b :: pyval where
  "scenario_trace_b =
     PObj (PDict [(PStr ''id'', PStr ''t-2''),
                  (PStr ''input'', PDict [(PStr ''x'', PInt 2)]),
                  (PStr ''output'', PStr ''bar''),
                  (PStr ''metadata'', PDict [(PStr ''dataset_item_id'', PStr ''b''),
                                             (PStr ''run'', PStr ''r'')])])"

definition scenario_batch :: services where
  "scenario_batch =
     scenario_services\<lparr>
       get_dataset :=
         (\<lambda>name. Inr \<lparr>ds_id = PStr ''ds-1'', ds_items = [scenario_item, scenario_item_b]\<rparr>),
       requests_get :=
         (\<lambda>url auth params.
            Inr (scenario_response\<lparr>resp_json :=
                   Inr (PDict [(PStr ''data'', PList [PDict [(PStr ''traceId'', PStr ''t-1'')],
                                                     PDict [(PStr ''traceId'', PStr ''t-2'')]])])\<rparr>)),
       trace_get :=
         (\<lambda>trace_id. if trace_id = PStr ''t-2'' then Inr scenario_trace_b else Inr scenario_trace)\<rparr>"

text \<open>Two configurations for \<^verbatim>\<open>run_prompt\<close>: an empty schema, and a schema given as text.\<close>

definition scenario_empty_schema :: pydict where
  "scenario_empty_schema = [(PStr ''model'', PStr ''m''), (PStr ''json_schema'', PDict [])]"

definition scenario_text_schema :: pydict where
  "scenario_text_schema = [(PStr ''model'', PStr ''m''), (PStr ''json_schema'', PStr ''skill: str'')]"

section \<open>Unfolding the scenario\<close>

lemmas scenario_defs = scenario_services_def scenario_prompt_def scenario_dataset_def
  scenario_item_def scenario_trace_def scenario_response_def scenario_runner_def scenario_repr_def

lemmas access_defs = getattr_def getattr_default_def find_attr_def hasattr_def getitem_def setitem_def setattr_def kwargs_def
  dict_keys_def dict_del_def dict_of_items_def dict_update_def lookup_item_def Let_def

section \<open>Dictionaries: what is stored and where\<close>

lemma dict_set_subset: "set (dict_set d k v) \<subseteq> insert (k, v) (set d)"
  by (induction d) (auto split: if_splits)

lemma dict_update_Cons:
  "dict_update d (kv # kvs) = dict_update (dict_set d (fst kv) (snd kv)) kvs"
  by (simp add: dict_update_def)

lemma dict_update_snoc:
  "dict_update d (kvs @ [kv]) = dict_set (dict_update d kvs) (fst kv) (snd kv)"
  by (simp add: dict_update_def)

lemma dict_update_subset: "set (dict_update d kvs) \<subseteq> set d \<union> set kvs"
proof (induction kvs arbitrary: d)
  case Nil
  then show ?case by (simp add: dict_update_def)
next
  case (Cons kv kvs)
  have "set (dict_set d (fst kv) (snd kv)) \<subseteq> insert kv (set d)"
    using dict_set_subset [of d "fst kv" "snd kv"] by simp
  then show ?case
    using Cons.IH [of "dict_set d (fst kv) (snd kv)"] by (auto simp: dict_update_Cons)
qed

lemma dict_of_items_subset: "set (dict_of_items kvs) \<subseteq> set kvs"
  using dict_update_subset [of "[]" kvs] by (simp add: dict_of_items_def)

lemma dict_set_fresh: "k \<notin> fst ` set d \<Longrightarrow> dict_set d k v = d @ [(k, v)]"
  by (induction d) auto

lemma dict_update_distinct:
  "distinct (map fst (d @ kvs)) \<Longrightarrow> dict_update d kvs = d @ kvs"
proof (induction kvs arbitrary: d)
  case Nil
  then show ?case by (simp add: dict_update_def)
next
  case (Cons kv kvs)
  from Cons.prems have fresh: "fst kv \<notin> fst ` set d" by auto
  have "dict_set d (fst kv) (snd kv) = d @ [kv]"
    using dict_set_fresh [OF fresh] by simp
  moreover from Cons.prems have "distinct (map fst ((d @ [kv]) @ kvs))" by simp
  ultimately show ?case using Cons.IH [of "d @ [kv]"] by (simp add: dict_update_Cons)
qed

lemma dict_of_items_distinct: "distinct (map fst kvs) \<Longrightarrow> dict_of_items kvs = kvs"
  using dict_update_distinct [of "[]" kvs] by (simp add: dict_of_items_def)

lemma dict_set_keys:
  "map fst (dict_set d k v) = (if k \<in> set (map fst d) then map fst d else map fst d @ [k])"
  by (induction d) (auto simp: rev_image_eqI)

lemma dict_set_keys_distinct: "distinct (map fst d) \<Longrightarrow> distinct (map fst (dict_set d k v))"
  by (simp add: dict_set_keys)

lemma dict_update_keys_distinct:
  "distinct (map fst d) \<Longrightarrow> distinct (map fst (dict_update d kvs))"
proof (induction kvs arbitrary: d)
  case Nil
  then show ?case by (simp add: dict_update_def)
next
  case (Cons kv kvs)
  then show ?case
    using Cons.IH [OF dict_set_keys_distinct [OF Cons.prems]] by (simp add: dict_update_Cons)
qed

lemma dict_of_items_keys_distinct: "distinct (map fst (dict_of_items kvs))"
  using dict_update_keys_distinct [of "[]" kvs] by (simp add: dict_of_items_def)

lemma dict_of_items_fixed: "dict_of_items (dict_of_items kvs) = dict_of_items kvs"
  using dict_of_items_distinct [OF dict_of_items_keys_distinct] .

lemma dict_get_set: "dict_get (dict_set d k v) k' = (if k' = k then Some v else dict_get d k')"
  by (induction d) auto

lemma dict_get_update:
  "dict_get (dict_update d kvs) k =
     (case dict_get (dict_of_items kvs) k of Some v \<Rightarrow> Some v | None \<Rightarrow> dict_get d k)"
proof (induction kvs rule: rev_induct)
  case Nil
  then show ?case by (simp add: dict_of_items_def dict_update_def)
next
  case (snoc kv kvs)
  then show ?case by (simp add: dict_of_items_def dict_update_snoc dict_get_set)
qed

lemma dict_get_of_items_map:
  "dict_get (dict_of_items (map (\<lambda>a. (PStr a, f a)) xs)) (PStr a) =
     (if a \<in> set xs then Some (f a) else None)"
proof (induction xs rule: rev_induct)
  case Nil
  then show ?case by (simp add: dict_of_items_def dict_update_def)
next
  case (snoc x xs)
  have "dict_of_items (map (\<lambda>a. (PStr a, f a)) (xs @ [x])) =
          dict_set (dict_of_items (map (\<lambda>a. (PStr a, f a)) xs)) (PStr x) (f x)"
    by (simp add: dict_of_items_def dict_update_snoc)
  with snoc show ?case by (auto simp: dict_get_set)
qed

lemma dict_get_del: "dict_get (dict_del d k) k' = (if k' = k then None else dict_get d k')"
  by (induction d) (auto simp: dict_del_def)

lemma dict_get_None_iff: "dict_get d k = None \<longleftrightarrow> k \<notin> set (dict_keys d)"
proof (induction d)
  case Nil
  then show ?case by (simp add: dict_keys_def)
next
  case (Cons kv d)
  obtain k' v where kv: "kv = (k', v)" by (cases kv)
  show ?case
  proof (cases "k' = k")
    case True
    then show ?thesis by (simp add: kv dict_keys_def)
  next
    case False
    then have "k \<noteq> k'" by blast
    with False Cons show ?thesis by (simp add: kv dict_keys_def)
  qed
qed

section \<open>make\_serializable: the shape of the result, idempotence\<close>

lemma make_serializable_plain_values: "plain_values (make_serializable v)"
proof (induction v rule: make_serializable.induct)
  case (1 d)
  let ?kvs = "map (\<lambda>kv. (fst kv, make_serializable (snd kv))) d"
  have "\<forall>kv \<in> set ?kvs. plain_values (snd kv)" using 1 by auto
  then have "\<forall>kv \<in> set (dict_of_items ?kvs). plain_values (snd kv)"
    using dict_of_items_subset [of ?kvs] by blast
  then show ?case by (simp add: list_all_iff)
next
  case (2 xs)
  then show ?case by (simp add: list_all_iff)
qed simp_all

lemma make_serializable_plain_tree: "text_keys v \<Longrightarrow> plain_tree (make_serializable v)"
proof (induction v rule: make_serializable.induct)
  case (1 d)
  let ?kvs = "map (\<lambda>kv. (fst kv, make_serializable (snd kv))) d"
  have "\<forall>kv \<in> set ?kvs. leaf (fst kv) \<and> plain_tree (snd kv)"
    using 1 by (auto simp: list_all_iff)
  then have "\<forall>kv \<in> set (dict_of_items ?kvs). leaf (fst kv) \<and> plain_tree (snd kv)"
    using dict_of_items_subset [of ?kvs] by blast
  then show ?case by (simp add: list_all_iff)
next
  case (2 xs)
  then show ?case by (simp add: list_all_iff)
qed simp_all

lemma make_serializable_dict_keys:
  "distinct (dict_keys d) \<Longrightarrow>
   make_serializable (PDict d) = PDict (map (\<lambda>kv. (fst kv, make_serializable (snd kv))) d)"
  by (simp add: dict_keys_def dict_of_items_distinct comp_def)


text \<open>
  C9. \<^verbatim>\<open>make_serializable\<close> is idempotent: serializing the result of a
  serialization gives that result again, for every value.
\<close>

theorem make_serializable_idempotent:
  "make_serializable (make_serializable v) = make_serializable v"
proof (induction v rule: make_serializable.induct)
  case (1 d)
  let ?f = "\<lambda>kv. (fst kv, make_serializable (snd kv))"
  let ?e = "dict_of_items (map ?f d)"
  have "\<forall>kv \<in> set (map ?f d). ?f kv = kv" using 1 by auto
  then have "\<forall>kv \<in> set ?e. ?f kv = kv"
    using dict_of_items_subset [of "map ?f d"] by blast
  then have "map ?f ?e = ?e" by (intro map_idI) blast
  then show ?case by (simp add: dict_of_items_fixed)
next
  case (2 xs)
  then show ?case by simp
qed simp_all

text \<open>
  C8, as the specification states it, fails: \<^verbatim>\<open>make_serializable\<close> converts the
  values of a mapping and keeps its keys as they are. The dict \<^verbatim>\<open>{(1, 2): 3}\<close>, whose
  key is a tuple, becomes \<^verbatim>\<open>{(1, 2): '3'}\<close>: the tuple is still in the result, which
  is therefore not a tree of mappings, sequences, text and binary values only.
\<close>

theorem make_serializable_keeps_keys:
  "make_serializable (PDict [(POther ''(1, 2)'' True, PInt 3)])
     = PDict [(POther ''(1, 2)'' True, PStr ''3'')]
   \<and> \<not> plain_tree (make_serializable (PDict [(POther ''(1, 2)'' True, PInt 3)]))"
  by (simp add: dict_of_items_def dict_update_def str_int_def)

text \<open>
  C8, amended. For every input value, every value position of the result of
  \<^verbatim>\<open>make_serializable\<close> holds a mapping, a sequence, a text or a binary value.
  Sequences are walked element by element; a mapping is walked value by value and its
  keys are kept unchanged; an object with an attribute dictionary is replaced by the
  serialization of that dictionary; every other value that is neither text nor binary
  is replaced by its text, and text and binary values are returned as they are. So
  when every mapping met on the walk has text or binary keys, the result is a tree of
  mappings, sequences, text and binary values with no other object left in it.
\<close>

theorem make_serializable_shape:
  "plain_values (make_serializable v)
   \<and> (text_keys v \<longrightarrow> plain_tree (make_serializable v))
   \<and> make_serializable (PList xs) = PList (map make_serializable xs)
   \<and> (distinct (dict_keys d) \<longrightarrow>
        make_serializable (PDict d) = PDict (map (\<lambda>kv. (fst kv, make_serializable (snd kv))) d))
   \<and> make_serializable (PObj attrs) = make_serializable attrs
   \<and> (converted c \<longrightarrow> make_serializable c = PStr (py_str repr_of c))
   \<and> (leaf l \<longrightarrow> make_serializable l = l)"
proof -
  have "make_serializable c = PStr (py_str repr_of c)" if "converted c"
    using that by (cases c) (simp_all add: py_str_def)
  moreover have "make_serializable l = l" if "leaf l"
    using that by (cases l) simp_all
  moreover have "distinct (dict_keys d) \<longrightarrow>
        make_serializable (PDict d) = PDict (map (\<lambda>kv. (fst kv, make_serializable (snd kv))) d)"
    using make_serializable_dict_keys by blast
  moreover have "make_serializable (PList xs) = PList (map make_serializable xs)" by simp
  moreover have "make_serializable (PObj attrs) = make_serializable attrs" by simp
  ultimately show ?thesis
    using make_serializable_plain_values [of v] make_serializable_plain_tree [of v] by blast
qed

theorem make_serializable_shape_witness:
  "text_keys scenario_trace
   \<and> plain_tree (make_serializable scenario_trace)
   \<and> make_serializable (PList [PInt 1, PNone]) = PList [PStr ''1'', PStr ''None'']
   \<and> distinct (dict_keys [(PStr ''x'', PInt 1), (POther ''(1, 2)'' True, PBool True)])
   \<and> make_serializable (PDict [(PStr ''x'', PInt 1), (POther ''(1, 2)'' True, PBool True)])
       = PDict [(PStr ''x'', PStr ''1''), (POther ''(1, 2)'' True, PStr ''True'')]
   \<and> make_serializable scenario_item
       = PDict [(PStr ''id'', PStr ''a''), (PStr ''input'', PDict [(PStr ''x'', PStr ''1'')]),
                (PStr ''expected_output'', PStr ''foo'')]
   \<and> converted (POther ''2.5'' True)
   \<and> make_serializable (POther ''2.5'' True) = PStr ''2.5''
   \<and> leaf (PBytes ''ab'') \<and> make_serializable (PBytes ''ab'') = PBytes ''ab''"
  using make_serializable_shape [of scenario_trace "[PInt 1, PNone]"
      "[(PStr ''x'', PInt 1), (POther ''(1, 2)'' True, PBool True)]"
      "PDict [(PStr ''id'', PStr ''a''), (PStr ''input'', PDict [(PStr ''x'', PInt 1)]),
              (PStr ''expected_output'', PStr ''foo'')]"
      "POther ''2.5'' True" scenario_repr "PBytes ''ab''"]
  by (simp add: scenario_trace_def scenario_item_def dict_keys_def dict_of_items_def dict_update_def
      str_int_def py_str_def)

section \<open>get\_dataset\_run: the merged record\<close>

lemma dict_get_merge_record:
  "dict_get (merge_record sv trace_info dataset_item_info trace item) (PStr a) =
     (if a \<in> set dataset_item_info then Some (getattr_default sv item a PNone)
      else if a \<in> set trace_info then Some (getattr_default sv trace a PNone)
      else None)"
  unfolding merge_record_def Let_def
  by (subst dict_get_update) (simp add: dict_of_items_fixed dict_get_update dict_get_of_items_map)

lemma getattr_default_absent: "\<not> hasattr sv obj a \<Longrightarrow> getattr_default sv obj a dflt = dflt"
  by (simp add: hasattr_def getattr_default_def split: option.splits)

text \<open>
  C1, as the specification states it, fails. \<^verbatim>\<open>{**trace_dict, **item_dict}\<close> stores
  the item's fields after the trace's, so under a name requested from both the merged
  record holds the item's value. In the scenario the trace's \<^verbatim>\<open>input\<close> carries the
  rendered schema and the item's does not; with \<^verbatim>\<open>input\<close> requested in both lists the
  merged record has the item's \<^verbatim>\<open>input\<close>, not the trace's.
\<close>

theorem merge_record_trace_value_lost:
  "merge_record scenario_services [''input''] [''input''] scenario_trace scenario_item
     = [(PStr ''input'', getattr_default scenario_services scenario_item ''input'' PNone)]
   \<and> getattr_default scenario_services scenario_item ''input'' PNone
       \<noteq> getattr_default scenario_services scenario_trace ''input'' PNone
   \<and> dict_get (merge_record scenario_services [''input''] [''input''] scenario_trace scenario_item)
         (PStr ''input'')
       \<noteq> Some (getattr_default scenario_services scenario_trace ''input'' PNone)
   \<and> fst (get_dataset_run scenario_services ''d'' ''r'' 100 25 [''input''] [''input''])
       = Inr (PList [PDict [(PStr ''input'', PDict [(PStr ''x'', PStr ''1'')])]])"
  by (simp add: get_dataset_run_def request_run_items_def raise_for_status_def reconcile_def
      response_data_def fetch_trace_def merge_record_def sleep_time_of_def sleep_events_def
      str_int_def scenario_defs access_defs)

text \<open>
  C1, amended. When the same field name is requested in both the trace-field list and
  the item-field list, the merged record's value for that key is the dataset item's
  value: item fields are layered on top of trace fields, so on every key collision the
  item's value wins over the trace's.
\<close>

theorem merge_record_item_wins:
  "a \<in> set trace_info \<Longrightarrow> a \<in> set dataset_item_info \<Longrightarrow>
   dict_get (merge_record sv trace_info dataset_item_info trace item) (PStr a)
     = Some (getattr_default sv item a PNone)"
  by (simp add: dict_get_merge_record)

theorem merge_record_item_wins_witness:
  "''input'' \<in> set [''input'', ''output''] \<and> ''input'' \<in> set [''expected_output'', ''input'']
   \<and> dict_get (merge_record scenario_services [''input'', ''output''] [''expected_output'', ''input'']
                  scenario_trace scenario_item) (PStr ''input'')
       = Some (PDict [(PStr ''x'', PInt 1)])"
  using merge_record_item_wins [of "''input''" "[''input'', ''output'']"
      "[''expected_output'', ''input'']" scenario_services scenario_trace scenario_item]
  by (simp add: scenario_defs access_defs)

section \<open>get\_dataset\_run: the response of the run-items endpoint\<close>

lemma raise_for_status_error:
  "400 \<le> resp_status resp \<Longrightarrow> resp_status resp < 600 \<Longrightarrow> \<exists>msg. raise_for_status resp = Some msg"
  by (simp add: raise_for_status_def)

lemma raise_for_status_iff:
  "raise_for_status resp = None \<longleftrightarrow> \<not> (400 \<le> resp_status resp \<and> resp_status resp < 600)"
  by (auto simp: raise_for_status_def)

text \<open>
  C6. When the run-items endpoint answers with an HTTP error status (400 to 599),
  \<^verbatim>\<open>get_dataset_run\<close> returns \<^verbatim>\<open>None\<close> and raises nothing: the error is caught,
  a message is printed, and no further call is made.
\<close>

theorem http_error_returns_None:
  assumes "fst (request_run_items sv dataset_name run_name limit) = Inr (ds, resp)"
    and "400 \<le> resp_status resp" and "resp_status resp < 600"
  shows "fst (get_dataset_run sv dataset_name run_name limit requests_per_minute trace_info
               dataset_item_info) = Inr PNone
         \<and> (\<exists>msg. snd (get_dataset_run sv dataset_name run_name limit requests_per_minute
                          trace_info dataset_item_info)
                     = snd (request_run_items sv dataset_name run_name limit) @ [Print msg])"
proof -
  obtain pre where req: "request_run_items sv dataset_name run_name limit = (Inr (ds, resp), pre)"
    using assms(1) by (cases "request_run_items sv dataset_name run_name limit") simp
  obtain msg where "raise_for_status resp = Some msg"
    using raise_for_status_error [OF assms(2,3)] by blast
  then show ?thesis by (simp add: get_dataset_run_def req)
qed

lemma request_run_items_scenario_down:
  "request_run_items scenario_down ''d'' ''r'' 100 =
     (Inr (scenario_dataset, scenario_response\<lparr>resp_status := 503,
          resp_reason := ''Service Unavailable'', resp_text := ''down''\<rparr>),
      [GetDataset ''d'',
       HttpGet ''https://h/api/public/dataset-run-items''
         [(PStr ''datasetId'', PStr ''ds-1''), (PStr ''runName'', PStr ''r''),
          (PStr ''limit'', PInt 100), (PStr ''response'', PStr ''json'')]])"
  by (simp add: request_run_items_def scenario_down_def scenario_services_def scenario_dataset_def)

theorem http_error_returns_None_witness:
  "fst (request_run_items scenario_down ''d'' ''r'' 100)
     = Inr (scenario_dataset, scenario_response\<lparr>resp_status := 503,
          resp_reason := ''Service Unavailable'', resp_text := ''down''\<rparr>)
   \<and> 400 \<le> resp_status (scenario_response\<lparr>resp_status := 503,
          resp_reason := ''Service Unavailable'', resp_text := ''down''\<rparr>)
   \<and> resp_status (scenario_response\<lparr>resp_status := 503,
          resp_reason := ''Service Unavailable'', resp_text := ''down''\<rparr>) < 600
   \<and> fst (get_dataset_run scenario_down ''d'' ''r'' 100 25 [''input'', ''output''] []) = Inr PNone
   \<and> snd (get_dataset_run scenario_down ''d'' ''r'' 100 25 [''input'', ''output''] [])
       = [GetDataset ''d'',
          HttpGet ''https://h/api/public/dataset-run-items''
            [(PStr ''datasetId'', PStr ''ds-1''), (PStr ''runName'', PStr ''r''),
             (PStr ''limit'', PInt 100), (PStr ''response'', PStr ''json'')],
          Print (''API request failed: 503 Server Error: Service Unavailable for url: ''
                   @ ''https://h/api/public/dataset-run-items'' @ '' - down'')]"
  using http_error_returns_None [of scenario_down "''d''" "''r''" 100 scenario_dataset
      "scenario_response\<lparr>resp_status := 503, resp_reason := ''Service Unavailable'', resp_text := ''down''\<rparr>"
      25 "[''input'', ''output'']" "[]"]
  by (simp add: request_run_items_scenario_down get_dataset_run_def raise_for_status_def
      scenario_response_def str_int_def)

section \<open>The loops: sleeps and processed items\<close>

lemma sleeps_append: "sleeps (xs @ ys) = sleeps xs @ sleeps ys"
  by (induction xs rule: sleeps.induct) simp_all

lemma sleeps_sleep_events: "sleeps (sleep_events st) = (if st > 0 then [st] else [])"
  by (simp add: sleep_events_def)

lemma sleeps_fetch_trace:
  "sleeps (snd (fetch_trace sv item_lookup trace_info dataset_item_info run_item)) = []"
  by (simp add: fetch_trace_def split: sum.splits)

lemma fetch_traces_sleeps:
  "fst (fetch_traces sv item_lookup trace_info dataset_item_info st run_items) = Inr run_traces \<Longrightarrow>
   length run_traces = length run_items
   \<and> sleeps (snd (fetch_traces sv item_lookup trace_info dataset_item_info st run_items))
       = (if st > 0 then replicate (length run_items) st else [])"
proof (induction run_items arbitrary: run_traces)
  case Nil
  then show ?case by simp
next
  case (Cons ri ris)
  obtain r evs where one: "fetch_trace sv item_lookup trace_info dataset_item_info ri = (r, evs)"
    by (cases "fetch_trace sv item_lookup trace_info dataset_item_info ri")
  obtain rs evs' where rest:
    "fetch_traces sv item_lookup trace_info dataset_item_info st ris = (rs, evs')"
    by (cases "fetch_traces sv item_lookup trace_info dataset_item_info st ris")
  from Cons.prems one rest obtain c cs where r: "r = Inr c" and rs: "rs = Inr cs"
    and rt: "run_traces = c # cs"
    by (auto split: sum.splits)
  have "sleeps evs = []" using sleeps_fetch_trace [of sv item_lookup trace_info dataset_item_info ri]
    by (simp add: one)
  moreover have "length cs = length ris \<and> sleeps evs' = (if st > 0 then replicate (length ris) st else [])"
    using Cons.IH [of cs] rest rs by simp
  ultimately show ?case
    by (simp add: one rest r rs rt sleeps_append sleeps_sleep_events)
qed

lemma fetch_traces_stops:
  assumes "run_item \<in> set run_items"
    and "fst (fetch_trace sv item_lookup trace_info dataset_item_info run_item) = Inl e"
  shows "\<exists>e'. fst (fetch_traces sv item_lookup trace_info dataset_item_info st run_items) = Inl e'"
  using assms(1)
proof (induction run_items)
  case Nil
  then show ?case by simp
next
  case (Cons ri ris)
  obtain r evs where one: "fetch_trace sv item_lookup trace_info dataset_item_info ri = (r, evs)"
    by (cases "fetch_trace sv item_lookup trace_info dataset_item_info ri")
  obtain rs evs' where rest:
    "fetch_traces sv item_lookup trace_info dataset_item_info st ris = (rs, evs')"
    by (cases "fetch_traces sv item_lookup trace_info dataset_item_info st ris")
  show ?case
  proof (cases r)
    case (Inl a)
    then show ?thesis by (simp add: one)
  next
    case (Inr c)
    with one assms(2) have "run_item \<noteq> ri" by auto
    with Cons.prems have "run_item \<in> set ris" by simp
    then obtain e' where "rs = Inl e'" using Cons.IH rest by auto
    then show ?thesis by (simp add: one rest Inr)
  qed
qed

lemma fetch_traces_first_failure:
  assumes "fst (fetch_traces sv item_lookup trace_info dataset_item_info st before) = Inr done"
    and "fst (fetch_trace sv item_lookup trace_info dataset_item_info run_item) = Inl e"
  shows "fst (fetch_traces sv item_lookup trace_info dataset_item_info st (before @ run_item # after))
           = Inl e"
  using assms(1)
proof (induction before arbitrary: "done")
  case Nil
  obtain r evs where one: "fetch_trace sv item_lookup trace_info dataset_item_info run_item = (r, evs)"
    by (cases "fetch_trace sv item_lookup trace_info dataset_item_info run_item")
  with assms(2) show ?case by simp
next
  case (Cons ri ris)
  obtain r evs where one: "fetch_trace sv item_lookup trace_info dataset_item_info ri = (r, evs)"
    by (cases "fetch_trace sv item_lookup trace_info dataset_item_info ri")
  obtain rs evs' where rest:
    "fetch_traces sv item_lookup trace_info dataset_item_info st ris = (rs, evs')"
    by (cases "fetch_traces sv item_lookup trace_info dataset_item_info st ris")
  obtain rs2 evs2 where rest2:
    "fetch_traces sv item_lookup trace_info dataset_item_info st (ris @ run_item # after) = (rs2, evs2)"
    by (cases "fetch_traces sv item_lookup trace_info dataset_item_info st (ris @ run_item # after)")
  from Cons.prems one rest obtain c cs where r: "r = Inr c" and rs: "rs = Inr cs"
    by (auto split: sum.splits)
  have "rs2 = Inl e" using Cons.IH [of cs] rest rs rest2 by simp
  then show ?case by (simp add: one r rest2)
qed

lemma fetch_trace_unknown_id:
  assumes "getitem run_item ''traceId'' = Inr trace_id"
    and "trace_get sv trace_id = Inr trace"
    and "getattr trace ''metadata'' = Inr metadata"
    and "getitem metadata ''dataset_item_id'' = Inr item_id"
    and "dict_get item_lookup item_id = None"
  shows "fst (fetch_trace sv item_lookup trace_info dataset_item_info run_item)
           = Inl (if hashable item_id then KeyError item_id else TypeError ''unhashable type'')"
  using assms by (simp add: fetch_trace_def lookup_item_def)

lemma processed_append: "processed (xs @ ys) = processed xs @ processed ys"
  by (induction xs rule: processed.induct) simp_all

lemma call_model_events:
  "sleeps (snd (call_model self input_data config)) = []
   \<and> processed (snd (call_model self input_data config)) = []"
  by (simp add: call_model_def split: sum.splits list.splits)

lemma run_prompt_events:
  "sleeps (rp_events (run_prompt repr_of self input_data config)) = []
   \<and> processed (rp_events (run_prompt repr_of self input_data config)) = []"
proof -
  have "sleeps (snd (call_model s i c)) = [] \<and> processed (snd (call_model s i c)) = []" for s i c
    by (rule call_model_events)
  then show ?thesis
    by (simp add: run_prompt_def Let_def split_beta split: sum.splits)
qed

lemma prompt_app_events:
  "sleeps (snd (snd (snd (prompt_app repr_of pr input_data item_id run_name)))) = []
   \<and> processed (snd (snd (snd (prompt_app repr_of pr input_data item_id run_name)))) = []"
  using run_prompt_events [of repr_of pr input_data "[]"]
  by (simp add: prompt_app_def Let_def sleeps_append processed_append split: sum.splits)

lemma run_experiment_item_events:
  "sleeps (snd (snd (run_experiment_item repr_of evaluator name params pr item))) = []
   \<and> (fst (run_experiment_item repr_of evaluator name params pr item) = None \<longrightarrow>
        processed (snd (snd (run_experiment_item repr_of evaluator name params pr item))) = [item])"
proof -
  have app: "sleeps (snd (snd (snd (prompt_app repr_of pr i k name)))) = []
     \<and> processed (snd (snd (snd (prompt_app repr_of pr i k name)))) = []" for i k
    by (rule prompt_app_events)
  show ?thesis
    unfolding run_experiment_item_def Let_def
    using app
    by (simp add: split_beta sleeps_append processed_append split: sum.splits option.splits)
qed

lemma experiment_loop_events:
  "fst (experiment_loop repr_of evaluator name params st pr items) = None \<Longrightarrow>
   sleeps (snd (snd (experiment_loop repr_of evaluator name params st pr items)))
     = (if st > 0 then replicate (length items) st else [])
   \<and> processed (snd (snd (experiment_loop repr_of evaluator name params st pr items))) = items"
proof (induction items arbitrary: pr)
  case Nil
  then show ?case by simp
next
  case (Cons item items)
  obtain r pr' evs where one:
    "run_experiment_item repr_of evaluator name params pr item = (r, pr', evs)"
    by (cases "run_experiment_item repr_of evaluator name params pr item")
  obtain r2 pr2 evs2 where rest:
    "experiment_loop repr_of evaluator name params st pr' items = (r2, pr2, evs2)"
    by (cases "experiment_loop repr_of evaluator name params st pr' items")
  from Cons.prems one rest have r: "r = None" and r2: "r2 = None"
    by (auto split: option.splits)
  have "sleeps evs = [] \<and> processed evs = [item]"
    using run_experiment_item_events [of repr_of evaluator name params pr item] one r by simp
  moreover have "sleeps evs2 = (if st > 0 then replicate (length items) st else [])
      \<and> processed evs2 = items"
    using Cons.IH [of pr'] rest r2 by simp
  moreover have "processed (sleep_events st) = []" by (simp add: sleep_events_def)
  ultimately show ?case
    by (simp add: one rest r sleeps_append processed_append sleeps_sleep_events)
qed

lemma sleep_time_of_pos: "sleep_time_of rpm > 0 \<longleftrightarrow> rpm > 0"
  by (simp add: sleep_time_of_def)

lemma run_experiment_events:
  assumes "fst (run_experiment repr_of sv self experiment_name prompt_name dataset_name evaluator
                  experiment_params test_count rpm) = Inr PNone"
  shows "\<exists>ds. get_dataset sv dataset_name = Inr ds
     \<and> processed (snd (run_experiment repr_of sv self experiment_name prompt_name dataset_name
                    evaluator experiment_params test_count rpm)) = slice_to (ds_items ds) test_count
     \<and> sleeps (snd (run_experiment repr_of sv self experiment_name prompt_name dataset_name
                    evaluator experiment_params test_count rpm))
         = (if rpm > 0 then replicate (length (slice_to (ds_items ds) test_count)) (60 / of_int rpm)
            else [])"
proof -
  from assms obtain p where p: "er_env_path self = Some p"
    by (cases "er_env_path self") (simp_all add: run_experiment_def)
  from assms p obtain pr where pr: "PromptRunner_init sv prompt_name = Inr pr"
    by (cases "PromptRunner_init sv prompt_name") (simp_all add: run_experiment_def)
  from assms p pr obtain ds where ds: "get_dataset sv dataset_name = Inr ds"
    by (cases "get_dataset sv dataset_name") (simp_all add: run_experiment_def)
  let ?loop = "experiment_loop repr_of evaluator experiment_name experiment_params
                 (sleep_time_of rpm) pr (slice_to (ds_items ds) test_count)"
  obtain r pr' evs where loop: "?loop = (r, pr', evs)" by (cases ?loop)
  from assms have r: "r = None"
    by (simp add: run_experiment_def p pr ds loop split: option.splits)
  have "sleeps evs = (if sleep_time_of rpm > 0
                      then replicate (length (slice_to (ds_items ds) test_count)) (sleep_time_of rpm)
                      else [])
        \<and> processed evs = slice_to (ds_items ds) test_count"
    using experiment_loop_events [of repr_of evaluator experiment_name experiment_params
        "sleep_time_of rpm" pr "slice_to (ds_items ds) test_count"] loop r by simp
  then show ?thesis
    by (simp add: run_experiment_def p pr ds loop sleep_time_of_pos)
       (simp add: sleep_time_of_def)
qed

lemma length_slice_to:
  "length (slice_to xs None) = length xs"
  "0 \<le> n \<Longrightarrow> length (slice_to xs (Some n)) = min (length xs) (nat n)"
  "0 \<le> n \<Longrightarrow> slice_to xs (Some n) = take (nat n) xs"
  by (simp_all add: slice_to_def)

lemma sleeps_request_run_items: "sleeps (snd (request_run_items sv dataset_name run_name limit)) = []"
  by (simp add: request_run_items_def Let_def split: option.splits sum.splits)

lemma get_dataset_run_sleeps:
  assumes "fst (get_dataset_run sv dataset_name run_name limit rpm trace_info dataset_item_info)
             = Inr (PList records)"
  shows "sleeps (snd (get_dataset_run sv dataset_name run_name limit rpm trace_info
                        dataset_item_info))
           = (if rpm > 0 then replicate (length records) (60 / of_int rpm) else [])"
proof -
  obtain r pre where req: "request_run_items sv dataset_name run_name limit = (r, pre)"
    by (cases "request_run_items sv dataset_name run_name limit")
  have pre: "sleeps pre = []" using sleeps_request_run_items [of sv dataset_name run_name limit]
    by (simp add: req)
  from assms req obtain ds resp where r: "r = Inr (ds, resp)"
    by (cases r) (auto simp: get_dataset_run_def)
  from assms have ok: "raise_for_status resp = None"
    by (cases "raise_for_status resp") (simp_all add: get_dataset_run_def req r)
  obtain res evs where rec:
    "reconcile sv ds resp rpm trace_info dataset_item_info = (res, evs)"
    by (cases "reconcile sv ds resp rpm trace_info dataset_item_info")
  from assms have res: "res = Inr (PList records)"
    by (simp add: get_dataset_run_def req r ok rec)
  from rec res obtain data item_lookup run_items run_traces
    where "response_data resp = Inr data" "build_lookup (ds_items ds) [] = Inr item_lookup"
      "py_iter data = Inr run_items"
      and ft: "fetch_traces sv item_lookup trace_info dataset_item_info (sleep_time_of rpm) run_items
                 = (Inr run_traces, evs)"
      and recs: "records = map (\<lambda>t. make_serializable (PDict t)) run_traces"
    by (auto simp: reconcile_def split: sum.splits prod.splits)
  have "length run_traces = length run_items
     \<and> sleeps evs = (if sleep_time_of rpm > 0 then replicate (length run_items) (sleep_time_of rpm)
                     else [])"
    using fetch_traces_sleeps [of sv item_lookup trace_info dataset_item_info "sleep_time_of rpm"
        run_items run_traces] ft by simp
  then show ?thesis
    by (simp add: get_dataset_run_def req r ok rec sleeps_append pre recs sleep_time_of_pos)
       (simp add: sleep_time_of_def)
qed

section \<open>The scenario, run\<close>

lemma scenario_run_prompt:
  "run_prompt scenario_repr scenario_runner (PDict [(PStr ''x'', PInt 1)]) [] =
     \<lparr>rp_result = Inr (PStr ''bar''),
      rp_self = scenario_runner\<lparr>prompt := scenario_prompt\<lparr>p_config := [(PStr ''model'', PStr ''m'')]\<rparr>\<rparr>,
      rp_input_data = PDict [(PStr ''x'', PInt 1),
                             (PStr ''json_schema_str'', PStr (CHR 0x27 # ''s'' @ CHR 0x27 # '': skill''))],
      rp_config = [],
      rp_events =
        [Compile [(PStr ''x'', PInt 1),
                  (PStr ''json_schema_str'', PStr (CHR 0x27 # ''s'' @ CHR 0x27 # '': skill''))],
         ChatCreate
           (PList [PDict [(PStr ''role'', PStr ''user''),
                          (PStr ''content'',
                           PDict [(PStr ''x'', PInt 1),
                                  (PStr ''json_schema_str'',
                                   PStr (CHR 0x27 # ''s'' @ CHR 0x27 # '': skill''))])]])
           [(PStr ''model'', PStr ''m'')]]\<rparr>"
  by (simp add: run_prompt_def inject_schema_def call_model_def render_schema_def py_str_def
      scenario_defs access_defs)

lemma scenario_get_dataset_run:
  "get_dataset_run scenario_services ''d'' ''r'' 100 60 [''output''] [''expected_output''] =
     (Inr (PList [PDict [(PStr ''output'', PStr ''bar''), (PStr ''expected_output'', PStr ''foo'')]]),
      [GetDataset ''d'',
       HttpGet ''https://h/api/public/dataset-run-items''
         [(PStr ''datasetId'', PStr ''ds-1''), (PStr ''runName'', PStr ''r''),
          (PStr ''limit'', PInt 100), (PStr ''response'', PStr ''json'')],
       TraceGet (PStr ''t-1''), Sleep 1])"
  by (simp add: get_dataset_run_def request_run_items_def raise_for_status_def reconcile_def
      response_data_def fetch_trace_def merge_record_def sleep_time_of_def sleep_events_def
      scenario_defs access_defs)


section \<open>get\_dataset\_run: a trace of an unknown item\<close>

text \<open>
  C7. When \<^verbatim>\<open>get_dataset_run\<close> fetches a trace whose recorded dataset-item id is not
  a key of the id-to-item lookup, the lookup \<^verbatim>\<open>item_lookup[...]\<close> raises
  (\<^verbatim>\<open>KeyError\<close> with that id; \<^verbatim>\<open>TypeError\<close> for an id that cannot be a key at
  all), the record is not skipped and the operation does not return a list: it raises,
  and with that lookup error when the run items before this one went through.
\<close>

theorem unknown_item_id_raises:
  assumes "fst (request_run_items sv dataset_name run_name limit) = Inr (ds, resp)"
    and "raise_for_status resp = None"
    and "response_data resp = Inr data"
    and "build_lookup (ds_items ds) [] = Inr item_lookup"
    and "py_iter data = Inr run_items"
    and "run_item \<in> set run_items"
    and "getitem run_item ''traceId'' = Inr trace_id"
    and "trace_get sv trace_id = Inr trace"
    and "getattr trace ''metadata'' = Inr metadata"
    and "getitem metadata ''dataset_item_id'' = Inr item_id"
    and "dict_get item_lookup item_id = None"
  shows "fst (fetch_trace sv item_lookup trace_info dataset_item_info run_item)
           = Inl (if hashable item_id then KeyError item_id else TypeError ''unhashable type'')
     \<and> (\<exists>e. fst (get_dataset_run sv dataset_name run_name limit requests_per_minute trace_info
                    dataset_item_info) = Inl e)
     \<and> (\<forall>before after done.
           run_items = before @ run_item # after
           \<longrightarrow> fst (fetch_traces sv item_lookup trace_info dataset_item_info
                      (sleep_time_of requests_per_minute) before) = Inr done
           \<longrightarrow> fst (get_dataset_run sv dataset_name run_name limit requests_per_minute trace_info
                      dataset_item_info)
                 = Inl (if hashable item_id then KeyError item_id
                        else TypeError ''unhashable type''))"
proof -
  let ?err = "if hashable item_id then KeyError item_id else TypeError ''unhashable type''"
  let ?st = "sleep_time_of requests_per_minute"
  obtain pre where req: "request_run_items sv dataset_name run_name limit = (Inr (ds, resp), pre)"
    using assms(1) by (cases "request_run_items sv dataset_name run_name limit") simp
  have one: "fst (fetch_trace sv item_lookup trace_info dataset_item_info run_item) = Inl ?err"
    using fetch_trace_unknown_id [OF assms(7-11)] .
  have run: "fst (get_dataset_run sv dataset_name run_name limit requests_per_minute trace_info
                    dataset_item_info) = Inl e"
    if "fst (fetch_traces sv item_lookup trace_info dataset_item_info ?st run_items) = Inl e" for e
  proof -
    obtain r evs where ft:
      "fetch_traces sv item_lookup trace_info dataset_item_info ?st run_items = (r, evs)"
      by (cases "fetch_traces sv item_lookup trace_info dataset_item_info ?st run_items")
    with that have "r = Inl e" by simp
    then show ?thesis
      by (simp add: get_dataset_run_def req assms(2-5) reconcile_def ft)
  qed
  obtain e' where "fst (fetch_traces sv item_lookup trace_info dataset_item_info ?st run_items) = Inl e'"
    using fetch_traces_stops [OF assms(6) one] by blast
  then have some: "\<exists>e. fst (get_dataset_run sv dataset_name run_name limit requests_per_minute
                            trace_info dataset_item_info) = Inl e"
    using run by blast
  have first: "fst (get_dataset_run sv dataset_name run_name limit requests_per_minute trace_info
                      dataset_item_info) = Inl ?err"
    if "run_items = before @ run_item # after"
      and "fst (fetch_traces sv item_lookup trace_info dataset_item_info ?st before) = Inr done"
    for before after "done"
    using run fetch_traces_first_failure [OF that(2) one, of after] that(1) by simp
  from one some first show ?thesis by blast
qed

lemma request_run_items_scenario_orphan:
  "fst (request_run_items scenario_orphan ''d'' ''r'' 100) = Inr (scenario_dataset, scenario_response)"
  by (simp add: request_run_items_def scenario_orphan_def scenario_services_def)

theorem unknown_item_id_raises_witness:
  "build_lookup (ds_items scenario_dataset) [] = Inr [(PStr ''a'', scenario_item)]
   \<and> trace_get scenario_orphan (PStr ''t-1'') = Inr scenario_orphan_trace
   \<and> dict_get [(PStr ''a'', scenario_item)] (PStr ''b'') = None
   \<and> fst (get_dataset_run scenario_orphan ''d'' ''r'' 100 25 [''input'', ''output''] [])
       = Inl (KeyError (PStr ''b''))"
proof -
  have h2: "raise_for_status scenario_response = None"
    by (simp add: raise_for_status_def scenario_response_def)
  have h3: "response_data scenario_response = Inr (PList [PDict [(PStr ''traceId'', PStr ''t-1'')]])"
    by (simp add: response_data_def scenario_response_def getitem_def)
  have h4: "build_lookup (ds_items scenario_dataset) [] = Inr [(PStr ''a'', scenario_item)]"
    by (simp add: scenario_dataset_def getattr_def scenario_item_def)
  have h5: "py_iter (PList [PDict [(PStr ''traceId'', PStr ''t-1'')]])
              = Inr [PDict [(PStr ''traceId'', PStr ''t-1'')]]"
    by simp
  have h6: "PDict [(PStr ''traceId'', PStr ''t-1'')] \<in> set [PDict [(PStr ''traceId'', PStr ''t-1'')]]"
    by simp
  have h7: "getitem (PDict [(PStr ''traceId'', PStr ''t-1'')]) ''traceId'' = Inr (PStr ''t-1'')"
    by (simp add: getitem_def)
  have h8: "trace_get scenario_orphan (PStr ''t-1'') = Inr scenario_orphan_trace"
    by (simp add: scenario_orphan_def scenario_services_def)
  have h9: "getattr scenario_orphan_trace ''metadata''
              = Inr (PDict [(PStr ''dataset_item_id'', PStr ''b'')])"
    by (simp add: getattr_def scenario_orphan_trace_def)
  have h10: "getitem (PDict [(PStr ''dataset_item_id'', PStr ''b'')]) ''dataset_item_id''
               = Inr (PStr ''b'')"
    by (simp add: getitem_def)
  have h11: "dict_get [(PStr ''a'', scenario_item)] (PStr ''b'') = None"
    by simp
  have "fst (get_dataset_run scenario_orphan ''d'' ''r'' 100 25 [''input'', ''output''] [])
          = Inl (KeyError (PStr ''b''))"
    using unknown_item_id_raises [OF request_run_items_scenario_orphan h2 h3 h4 h5 h6 h7 h8 h9 h10 h11,
        of "[''input'', ''output'']" "[]" 25]
    by (elim conjE allE [of _ "[]"]) simp
  with h4 h8 h11 show ?thesis by simp
qed

section \<open>get\_dataset\_run: the records returned\<close>

lemma fetch_trace_returns:
  assumes "getitem run_item ''traceId'' = Inr trace_id"
    and "trace_get sv trace_id = Inr trace"
    and "getattr trace ''metadata'' = Inr metadata"
    and "getitem metadata ''dataset_item_id'' = Inr item_id"
    and "dict_get item_lookup item_id = Some item"
    and "fst (fetch_trace sv item_lookup trace_info dataset_item_info run_item) = Inr combined_dict"
  shows "combined_dict = merge_record sv trace_info dataset_item_info trace item"
  using assms by (simp add: fetch_trace_def lookup_item_def split: if_splits)

lemma fetch_traces_nth:
  "fst (fetch_traces sv item_lookup trace_info dataset_item_info st run_items) = Inr run_traces \<Longrightarrow>
   i < length run_items \<Longrightarrow>
   fst (fetch_trace sv item_lookup trace_info dataset_item_info (run_items ! i)) = Inr (run_traces ! i)"
proof (induction run_items arbitrary: run_traces i)
  case Nil
  then show ?case by simp
next
  case (Cons ri ris)
  obtain r evs where one: "fetch_trace sv item_lookup trace_info dataset_item_info ri = (r, evs)"
    by (cases "fetch_trace sv item_lookup trace_info dataset_item_info ri")
  obtain rs evs' where rest:
    "fetch_traces sv item_lookup trace_info dataset_item_info st ris = (rs, evs')"
    by (cases "fetch_traces sv item_lookup trace_info dataset_item_info st ris")
  from Cons.prems(1) one rest obtain c cs where r: "r = Inr c" and rs: "rs = Inr cs"
    and rt: "run_traces = c # cs"
    by (auto split: sum.splits)
  show ?case
  proof (cases i)
    case 0
    then show ?thesis by (simp add: one r rt)
  next
    case (Suc j)
    with Cons.prems(2) have "j < length ris" by simp
    then have "fst (fetch_trace sv item_lookup trace_info dataset_item_info (ris ! j)) = Inr (cs ! j)"
      using Cons.IH [of cs j] rest rs by simp
    then show ?thesis by (simp add: Suc rt)
  qed
qed

lemma dict_get_map_values:
  "dict_get (map (\<lambda>kv. (fst kv, f (snd kv))) d) k = map_option f (dict_get d k)"
  by (induction d) auto

lemma merge_record_keys_distinct:
  "distinct (dict_keys (merge_record sv trace_info dataset_item_info trace item))"
  unfolding merge_record_def Let_def dict_keys_def
  by (intro dict_update_keys_distinct) simp

lemma getitem_serialized_merge_record:
  "getitem (make_serializable (PDict (merge_record sv trace_info dataset_item_info trace item))) a =
     (if a \<in> set dataset_item_info
        then Inr (make_serializable (getattr_default sv item a PNone))
      else if a \<in> set trace_info
        then Inr (make_serializable (getattr_default sv trace a PNone))
      else Inl (KeyError (PStr a)))"
proof -
  let ?m = "merge_record sv trace_info dataset_item_info trace item"
  have ms: "make_serializable (PDict ?m) = PDict (map (\<lambda>kv. (fst kv, make_serializable (snd kv))) ?m)"
    using make_serializable_dict_keys [OF merge_record_keys_distinct] .
  show ?thesis
    unfolding ms by (simp add: getitem_def dict_get_map_values dict_get_merge_record)
qed

lemma get_dataset_run_returns:
  assumes "fst (get_dataset_run sv dataset_name run_name limit rpm trace_info dataset_item_info)
             = Inr (PList records)"
  shows "\<exists>ds resp data item_lookup run_items run_traces.
           fst (request_run_items sv dataset_name run_name limit) = Inr (ds, resp)
         \<and> raise_for_status resp = None
         \<and> response_data resp = Inr data
         \<and> build_lookup (ds_items ds) [] = Inr item_lookup
         \<and> py_iter data = Inr run_items
         \<and> fst (fetch_traces sv item_lookup trace_info dataset_item_info (sleep_time_of rpm) run_items)
             = Inr run_traces
         \<and> snd (get_dataset_run sv dataset_name run_name limit rpm trace_info dataset_item_info)
             = snd (request_run_items sv dataset_name run_name limit)
               @ snd (fetch_traces sv item_lookup trace_info dataset_item_info (sleep_time_of rpm)
                        run_items)
         \<and> records = map (\<lambda>t. make_serializable (PDict t)) run_traces"
proof -
  obtain r pre where req: "request_run_items sv dataset_name run_name limit = (r, pre)"
    by (cases "request_run_items sv dataset_name run_name limit")
  from assms req obtain ds resp where r: "r = Inr (ds, resp)"
    by (cases r) (auto simp: get_dataset_run_def)
  from assms have ok: "raise_for_status resp = None"
    by (cases "raise_for_status resp") (simp_all add: get_dataset_run_def req r)
  obtain res evs where rec:
    "reconcile sv ds resp rpm trace_info dataset_item_info = (res, evs)"
    by (cases "reconcile sv ds resp rpm trace_info dataset_item_info")
  from assms have res: "res = Inr (PList records)"
    by (simp add: get_dataset_run_def req r ok rec)
  from rec res obtain data item_lookup run_items run_traces
    where "response_data resp = Inr data" "build_lookup (ds_items ds) [] = Inr item_lookup"
      "py_iter data = Inr run_items"
      and ft: "fetch_traces sv item_lookup trace_info dataset_item_info (sleep_time_of rpm) run_items
                 = (Inr run_traces, evs)"
      and recs: "records = map (\<lambda>t. make_serializable (PDict t)) run_traces"
    by (auto simp: reconcile_def split: sum.splits prod.splits)
  then show ?thesis
    by (simp add: get_dataset_run_def req r ok rec)
qed

text \<open>
  C10, as stated, fails. A name requested from both lists that the trace lacks and the
  item has is answered by the item: the merged record holds the item's value, not
  \<^verbatim>\<open>None\<close>. And the record that \<^verbatim>\<open>get_dataset_run\<close> returns has been through
  \<^verbatim>\<open>make_serializable\<close>, where the \<^verbatim>\<open>None\<close> of an absent attribute becomes the
  text \<^verbatim>\<open>'None'\<close>.
\<close>

theorem absent_trace_attribute_not_None:
  "\<not> hasattr scenario_services scenario_trace ''expected_output''
   \<and> \<not> hasattr scenario_services scenario_trace ''score''
   \<and> dict_get (merge_record scenario_services [''expected_output'', ''score''] [''expected_output'']
                  scenario_trace scenario_item) (PStr ''expected_output'')
       = Some (PStr ''foo'')
   \<and> fst (get_dataset_run scenario_services ''d'' ''r'' 100 25 [''expected_output'', ''score'']
            [''expected_output''])
       = Inr (PList [PDict [(PStr ''expected_output'', PStr ''foo''),
                            (PStr ''score'', PStr ''None'')]])
   \<and> PStr ''foo'' \<noteq> PNone \<and> PStr ''None'' \<noteq> PNone"
  by (simp add: get_dataset_run_def request_run_items_def raise_for_status_def reconcile_def
      response_data_def fetch_trace_def merge_record_def sleep_time_of_def sleep_events_def
      scenario_defs access_defs)

text \<open>The lookup also answers a special name: \<^verbatim>\<open>getattr(item, '__dict__', None)\<close>.\<close>

lemma getattr_default_special_name:
  "getattr_default scenario_services scenario_item ''__dict__'' PNone
     = PDict [(PStr ''id'', PStr ''a''), (PStr ''input'', PDict [(PStr ''x'', PInt 1)]),
              (PStr ''expected_output'', PStr ''foo'')]"
  by (simp add: scenario_defs access_defs)

text \<open>
  C10, amended. In a run of \<^verbatim>\<open>get_dataset_run\<close> that returns, there is one record
  for each run item, and every requested trace-field name and every requested
  item-field name is a key of it, whether or not the fetched trace or the dataset item
  has the attribute; a missing attribute raises nothing. The value under a name is
  that of \<^verbatim>\<open>getattr(obj, name, None)\<close>, on the item when the name is among the item
  fields and on the trace otherwise, serialized. So an attribute that the item lacks,
  or that the trace lacks under a name requested from the trace only, yields
  \<^verbatim>\<open>None\<close> in the merged record and the text \<^verbatim>\<open>'None'\<close> in the record returned.
\<close>

theorem returned_record_requested_keys:
  assumes "fst (get_dataset_run sv dataset_name run_name limit rpm trace_info dataset_item_info)
             = Inr (PList records)"
    and "fst (request_run_items sv dataset_name run_name limit) = Inr (ds, resp)"
    and "response_data resp = Inr data"
    and "build_lookup (ds_items ds) [] = Inr item_lookup"
    and "py_iter data = Inr run_items"
    and "i < length run_items"
    and "getitem (run_items ! i) ''traceId'' = Inr trace_id"
    and "trace_get sv trace_id = Inr trace"
    and "getattr trace ''metadata'' = Inr metadata"
    and "getitem metadata ''dataset_item_id'' = Inr item_id"
    and "dict_get item_lookup item_id = Some item"
  shows "length records = length run_items
     \<and> records ! i = make_serializable (PDict (merge_record sv trace_info dataset_item_info trace item))
     \<and> (\<forall>a \<in> set trace_info \<union> set dataset_item_info.
          PStr a \<in> set (dict_keys (merge_record sv trace_info dataset_item_info trace item))
          \<and> dict_get (merge_record sv trace_info dataset_item_info trace item) (PStr a)
              = Some (if a \<in> set dataset_item_info then getattr_default sv item a PNone
                      else getattr_default sv trace a PNone)
          \<and> getitem (records ! i) a
              = Inr (make_serializable (if a \<in> set dataset_item_info
                                        then getattr_default sv item a PNone
                                        else getattr_default sv trace a PNone)))
     \<and> (\<forall>a \<in> set dataset_item_info.
          \<not> hasattr sv item a
          \<longrightarrow> dict_get (merge_record sv trace_info dataset_item_info trace item) (PStr a) = Some PNone
              \<and> getitem (records ! i) a = Inr (PStr ''None''))
     \<and> (\<forall>a \<in> set trace_info.
          a \<notin> set dataset_item_info \<longrightarrow> \<not> hasattr sv trace a
          \<longrightarrow> dict_get (merge_record sv trace_info dataset_item_info trace item) (PStr a) = Some PNone
              \<and> getitem (records ! i) a = Inr (PStr ''None''))"
proof -
  let ?m = "merge_record sv trace_info dataset_item_info trace item"
  from get_dataset_run_returns [OF assms(1)] assms(2-5)
  obtain run_traces where
    ft: "fst (fetch_traces sv item_lookup trace_info dataset_item_info (sleep_time_of rpm) run_items)
           = Inr run_traces"
    and recs: "records = map (\<lambda>t. make_serializable (PDict t)) run_traces"
    by auto
  have len: "length run_traces = length run_items"
    using fetch_traces_sleeps [OF ft] by simp
  have "fst (fetch_trace sv item_lookup trace_info dataset_item_info (run_items ! i))
          = Inr (run_traces ! i)"
    using fetch_traces_nth [OF ft assms(6)] .
  then have "run_traces ! i = ?m"
    using fetch_trace_returns [OF assms(7-11)] by blast
  with len assms(6) recs have rec: "records ! i = make_serializable (PDict ?m)" by simp
  have key: "PStr a \<in> set (dict_keys ?m)" if "a \<in> set trace_info \<union> set dataset_item_info" for a
  proof -
    from that have "dict_get ?m (PStr a) \<noteq> None" by (auto simp: dict_get_merge_record)
    then show ?thesis by (simp add: dict_get_None_iff)
  qed
  have gi: "getitem (records ! i) a =
     (if a \<in> set dataset_item_info
        then Inr (make_serializable (getattr_default sv item a PNone))
      else if a \<in> set trace_info
        then Inr (make_serializable (getattr_default sv trace a PNone))
      else Inl (KeyError (PStr a)))" for a
    unfolding rec by (rule getitem_serialized_merge_record)
  have c1: "length records = length run_items" using len recs by simp
  have c3: "\<forall>a \<in> set trace_info \<union> set dataset_item_info.
          PStr a \<in> set (dict_keys ?m)
          \<and> dict_get ?m (PStr a)
              = Some (if a \<in> set dataset_item_info then getattr_default sv item a PNone
                      else getattr_default sv trace a PNone)
          \<and> getitem (records ! i) a
              = Inr (make_serializable (if a \<in> set dataset_item_info
                                        then getattr_default sv item a PNone
                                        else getattr_default sv trace a PNone))"
    using key by (auto simp: gi dict_get_merge_record)
  have c4: "\<forall>a \<in> set dataset_item_info.
          \<not> hasattr sv item a
          \<longrightarrow> dict_get ?m (PStr a) = Some PNone \<and> getitem (records ! i) a = Inr (PStr ''None'')"
    by (simp add: gi dict_get_merge_record getattr_default_absent)
  have c5: "\<forall>a \<in> set trace_info.
          a \<notin> set dataset_item_info \<longrightarrow> \<not> hasattr sv trace a
          \<longrightarrow> dict_get ?m (PStr a) = Some PNone \<and> getitem (records ! i) a = Inr (PStr ''None'')"
    by (simp add: gi dict_get_merge_record getattr_default_absent)
  from c1 rec c3 c4 c5 show ?thesis by blast
qed

lemma request_run_items_scenario:
  "fst (request_run_items scenario_services ''d'' ''r'' 100) = Inr (scenario_dataset, scenario_response)"
  by (simp add: request_run_items_def scenario_services_def)

theorem returned_record_requested_keys_witness:
  "fst (get_dataset_run scenario_services ''d'' ''r'' 100 25 [''output'', ''score'']
          [''expected_output'', ''note''])
     = Inr (PList [PDict [(PStr ''output'', PStr ''bar''), (PStr ''score'', PStr ''None''),
                          (PStr ''expected_output'', PStr ''foo''), (PStr ''note'', PStr ''None'')]])
   \<and> \<not> hasattr scenario_services scenario_trace ''score''
   \<and> \<not> hasattr scenario_services scenario_item ''note''
   \<and> merge_record scenario_services [''output'', ''score''] [''expected_output'', ''note'']
         scenario_trace scenario_item
       = [(PStr ''output'', PStr ''bar''), (PStr ''score'', PNone),
          (PStr ''expected_output'', PStr ''foo''), (PStr ''note'', PNone)]
   \<and> getitem (PDict [(PStr ''output'', PStr ''bar''), (PStr ''score'', PStr ''None''),
                       (PStr ''expected_output'', PStr ''foo''), (PStr ''note'', PStr ''None'')])
         ''score'' = Inr (PStr ''None'')"
proof -
  have h1: "fst (get_dataset_run scenario_services ''d'' ''r'' 100 25 [''output'', ''score'']
                   [''expected_output'', ''note''])
     = Inr (PList [PDict [(PStr ''output'', PStr ''bar''), (PStr ''score'', PStr ''None''),
                          (PStr ''expected_output'', PStr ''foo''), (PStr ''note'', PStr ''None'')]])"
    by (simp add: get_dataset_run_def request_run_items_def raise_for_status_def reconcile_def
        response_data_def fetch_trace_def merge_record_def sleep_time_of_def sleep_events_def
        scenario_defs access_defs)
  have h3: "response_data scenario_response = Inr (PList [PDict [(PStr ''traceId'', PStr ''t-1'')]])"
    by (simp add: response_data_def scenario_response_def getitem_def)
  have h4: "build_lookup (ds_items scenario_dataset) [] = Inr [(PStr ''a'', scenario_item)]"
    by (simp add: scenario_dataset_def getattr_def scenario_item_def)
  have h5: "py_iter (PList [PDict [(PStr ''traceId'', PStr ''t-1'')]])
              = Inr [PDict [(PStr ''traceId'', PStr ''t-1'')]]"
    by simp
  have h6: "0 < length [PDict [(PStr ''traceId'', PStr ''t-1'')]]" by simp
  have h7: "getitem ([PDict [(PStr ''traceId'', PStr ''t-1'')]] ! 0) ''traceId'' = Inr (PStr ''t-1'')"
    by (simp add: getitem_def)
  have h8: "trace_get scenario_services (PStr ''t-1'') = Inr scenario_trace"
    by (simp add: scenario_services_def)
  have h9: "getattr scenario_trace ''metadata''
              = Inr (PDict [(PStr ''dataset_item_id'', PStr ''a''), (PStr ''run'', PStr ''r'')])"
    by (simp add: getattr_def scenario_trace_def)
  have h10: "getitem (PDict [(PStr ''dataset_item_id'', PStr ''a''), (PStr ''run'', PStr ''r'')])
               ''dataset_item_id'' = Inr (PStr ''a'')"
    by (simp add: getitem_def)
  have h11: "dict_get [(PStr ''a'', scenario_item)] (PStr ''a'') = Some scenario_item"
    by simp
  have a1: "\<not> hasattr scenario_services scenario_trace ''score''"
    by (simp add: scenario_defs access_defs)
  have a2: "\<not> hasattr scenario_services scenario_item ''note''"
    by (simp add: scenario_defs access_defs)
  note inst = returned_record_requested_keys [OF h1 request_run_items_scenario h3 h4 h5 h6 h7 h8 h9
      h10 h11]
  have m: "getitem (PDict [(PStr ''output'', PStr ''bar''), (PStr ''score'', PStr ''None''),
                           (PStr ''expected_output'', PStr ''foo''), (PStr ''note'', PStr ''None'')])
              ''score'' = Inr (PStr ''None'')"
    using inst a1 by (elim conjE) simp
  have "merge_record scenario_services [''output'', ''score''] [''expected_output'', ''note'']
         scenario_trace scenario_item
       = [(PStr ''output'', PStr ''bar''), (PStr ''score'', PNone),
          (PStr ''expected_output'', PStr ''foo''), (PStr ''note'', PNone)]"
    by (simp add: merge_record_def scenario_defs access_defs)
  with h1 a1 a2 m show ?thesis by simp
qed

section \<open>The sleeps of a batch\<close>

lemma separated_Cons: "bs \<noteq> [] \<Longrightarrow> separated sep (b # bs) = b @ sep @ separated sep bs"
  by (cases bs) simp_all

lemma length_item_blocks:
  "length (item_blocks repr_of evaluator name params pr items) = length items"
  by (induction items arbitrary: pr) (simp_all add: split_beta)

lemma item_blocks_no_sleep:
  "list_all (\<lambda>b. sleeps b = []) (item_blocks repr_of evaluator name params pr items)"
proof (induction items arbitrary: pr)
  case Nil
  then show ?case by simp
next
  case (Cons item items)
  then show ?case
    using run_experiment_item_events [of repr_of evaluator name params pr item]
    by (simp add: split_beta)
qed

lemma experiment_loop_blocks:
  "fst (experiment_loop repr_of evaluator name params st pr items) = None \<Longrightarrow>
   snd (snd (experiment_loop repr_of evaluator name params st pr items))
     = separated (sleep_events st) (item_blocks repr_of evaluator name params pr items)
       @ (if items = [] then [] else sleep_events st)
   \<and> map processed (item_blocks repr_of evaluator name params pr items) = map (\<lambda>item. [item]) items"
proof (induction items arbitrary: pr)
  case Nil
  then show ?case by simp
next
  case (Cons item items)
  obtain r pr' evs where one:
    "run_experiment_item repr_of evaluator name params pr item = (r, pr', evs)"
    by (cases "run_experiment_item repr_of evaluator name params pr item")
  obtain r2 pr2 evs2 where rest:
    "experiment_loop repr_of evaluator name params st pr' items = (r2, pr2, evs2)"
    by (cases "experiment_loop repr_of evaluator name params st pr' items")
  from Cons.prems one rest have r: "r = None" and r2: "r2 = None"
    by (auto split: option.splits)
  have p: "processed evs = [item]"
    using run_experiment_item_events [of repr_of evaluator name params pr item] one r by simp
  have ih: "evs2 = separated (sleep_events st) (item_blocks repr_of evaluator name params pr' items)
                 @ (if items = [] then [] else sleep_events st)
     \<and> map processed (item_blocks repr_of evaluator name params pr' items) = map (\<lambda>item. [item]) items"
    using Cons.IH [of pr'] rest r2 by simp
  show ?case
  proof (cases "items = []")
    case True
    with ih show ?thesis by (simp add: one rest r p)
  next
    case False
    then have "item_blocks repr_of evaluator name params pr' items \<noteq> []"
      using length_item_blocks [of repr_of evaluator name params pr' items] by auto
    then show ?thesis using ih False by (simp add: one rest r p separated_Cons)
  qed
qed

lemma sleeps_separated:
  "list_all (\<lambda>b. sleeps b = []) bs \<Longrightarrow>
   sleeps (separated sep bs) = concat (replicate (length bs - 1) (sleeps sep))"
  by (induction sep bs rule: separated.induct) (simp_all add: sleeps_append)

lemma total_sleep_separated:
  "list_all (\<lambda>b. sleeps b = []) bs \<Longrightarrow>
   total_sleep (separated (sleep_events (sleep_time_of rpm)) bs)
     = of_nat (length bs - 1) * sleep_time_of rpm"
proof -
  assume "list_all (\<lambda>b. sleeps b = []) bs"
  then have "sleeps (separated (sleep_events (sleep_time_of rpm)) bs)
               = concat (replicate (length bs - 1) (sleeps (sleep_events (sleep_time_of rpm))))"
    by (rule sleeps_separated)
  moreover have "sum_list (concat (replicate n (sleeps (sleep_events (sleep_time_of rpm)))))
                   = of_nat n * sleep_time_of rpm" for n
    by (induction n) (simp_all add: sleeps_sleep_events sleep_time_of_def algebra_simps)
  ultimately show ?thesis by (simp add: total_sleep_def)
qed

lemma fetched_append: "fetched (xs @ ys) = fetched xs @ fetched ys"
  by (induction xs rule: fetched.induct) simp_all

lemma fetch_trace_block:
  "fst (fetch_trace sv item_lookup trace_info dataset_item_info run_item) = Inr combined_dict \<Longrightarrow>
   sleeps (snd (fetch_trace sv item_lookup trace_info dataset_item_info run_item)) = []
   \<and> length (fetched (snd (fetch_trace sv item_lookup trace_info dataset_item_info run_item))) = 1"
  by (simp add: fetch_trace_def split: sum.splits)

lemma fetch_traces_blocks:
  "fst (fetch_traces sv item_lookup trace_info dataset_item_info st run_items) = Inr run_traces \<Longrightarrow>
   snd (fetch_traces sv item_lookup trace_info dataset_item_info st run_items)
     = separated (sleep_events st)
         (map (\<lambda>ri. snd (fetch_trace sv item_lookup trace_info dataset_item_info ri)) run_items)
       @ (if run_items = [] then [] else sleep_events st)
   \<and> list_all (\<lambda>ri. sleeps (snd (fetch_trace sv item_lookup trace_info dataset_item_info ri)) = []
                   \<and> length (fetched (snd (fetch_trace sv item_lookup trace_info dataset_item_info ri)))
                       = 1) run_items"
proof (induction run_items arbitrary: run_traces)
  case Nil
  then show ?case by simp
next
  case (Cons ri ris)
  obtain r evs where one: "fetch_trace sv item_lookup trace_info dataset_item_info ri = (r, evs)"
    by (cases "fetch_trace sv item_lookup trace_info dataset_item_info ri")
  obtain rs evs' where rest:
    "fetch_traces sv item_lookup trace_info dataset_item_info st ris = (rs, evs')"
    by (cases "fetch_traces sv item_lookup trace_info dataset_item_info st ris")
  from Cons.prems one rest obtain c cs where r: "r = Inr c" and rs: "rs = Inr cs"
    by (auto split: sum.splits)
  have b: "sleeps evs = [] \<and> length (fetched evs) = 1"
    using fetch_trace_block [of sv item_lookup trace_info dataset_item_info ri c] one r by simp
  note ih = Cons.IH [of cs, unfolded rest rs, simplified]
  show ?case
  proof (cases "ris = []")
    case True
    with ih b show ?thesis by (simp add: one rest r rs)
  next
    case False
    then have "map (\<lambda>ri. snd (fetch_trace sv item_lookup trace_info dataset_item_info ri)) ris \<noteq> []"
      by simp
    then show ?thesis using ih b False by (simp add: one rest r rs separated_Cons)
  qed
qed

lemma fetched_request_run_items:
  "fetched (snd (request_run_items sv dataset_name run_name limit)) = []"
  by (simp add: request_run_items_def Let_def split: option.splits sum.splits)

lemma scenario_batch_get_dataset_run:
  "get_dataset_run scenario_batch ''d'' ''r'' 100 get_dataset_run_default_rpm [''output'']
      [''expected_output''] =
     (Inr (PList [PDict [(PStr ''output'', PStr ''bar''), (PStr ''expected_output'', PStr ''foo'')],
                  PDict [(PStr ''output'', PStr ''bar''), (PStr ''expected_output'', PStr ''baz'')]]),
      [GetDataset ''d'',
       HttpGet ''https://h/api/public/dataset-run-items''
         [(PStr ''datasetId'', PStr ''ds-1''), (PStr ''runName'', PStr ''r''),
          (PStr ''limit'', PInt 100), (PStr ''response'', PStr ''json'')],
       TraceGet (PStr ''t-1''), Sleep (12 / 5), TraceGet (PStr ''t-2''), Sleep (12 / 5)])"
  by (simp add: get_dataset_run_def request_run_items_def raise_for_status_def reconcile_def
      response_data_def fetch_trace_def merge_record_def sleep_time_of_def sleep_events_def
      get_dataset_run_default_rpm_def scenario_batch_def scenario_trace_b_def scenario_item_b_def
      scenario_defs access_defs)

lemma scenario_runner_init: "PromptRunner_init scenario_services ''p'' = Inr scenario_runner"
  by (simp add: PromptRunner_init_def scenario_runner_def scenario_services_def)

lemma scenario_experiment_loop:
  "experiment_loop scenario_repr None ''e'' (PDict []) (sleep_time_of 60) scenario_runner
       [scenario_item, scenario_item_b]
     = (None,
        scenario_runner\<lparr>prompt := scenario_prompt\<lparr>p_config := [(PStr ''model'', PStr ''m'')]\<rparr>\<rparr>,
        [ItemRun scenario_item ''e'' [],
         StartGeneration ''p-llm-call'' (PDict [(PStr ''x'', PInt 1)])
           (PDict [(PStr ''item_id'', PStr ''a''), (PStr ''run'', PStr ''e'')]) (PStr ''m''),
         Compile [(PStr ''x'', PInt 1),
                  (PStr ''json_schema_str'', PStr (CHR 0x27 # ''s'' @ CHR 0x27 # '': skill''))],
         ChatCreate
           (PList [PDict [(PStr ''role'', PStr ''user''),
                          (PStr ''content'',
                           PDict [(PStr ''x'', PInt 1),
                                  (PStr ''json_schema_str'',
                                   PStr (CHR 0x27 # ''s'' @ CHR 0x27 # '': skill''))])]])
           [(PStr ''model'', PStr ''m'')],
         GenerationUpdate (PStr ''bar''),
         TraceUpdate (PDict [(PStr ''x'', PInt 1),
                             (PStr ''json_schema_str'',
                              PStr (CHR 0x27 # ''s'' @ CHR 0x27 # '': skill''))])
           (PStr ''bar''),
         Sleep 1,
         ItemRun scenario_item_b ''e'' [],
         StartGeneration ''p-llm-call'' (PDict [(PStr ''x'', PInt 2)])
           (PDict [(PStr ''item_id'', PStr ''b''), (PStr ''run'', PStr ''e'')]) (PStr ''m''),
         Compile [(PStr ''x'', PInt 2)],
         ChatCreate
           (PList [PDict [(PStr ''role'', PStr ''user''),
                          (PStr ''content'', PDict [(PStr ''x'', PInt 2)])]])
           [(PStr ''model'', PStr ''m'')],
         GenerationUpdate (PStr ''bar''),
         TraceUpdate (PDict [(PStr ''x'', PInt 2)]) (PStr ''bar''),
         Sleep 1])"
  by (simp add: PromptRunner_init_def run_experiment_item_def
      prompt_app_def run_prompt_def inject_schema_def call_model_def render_schema_def py_str_def
      sleep_time_of_def sleep_events_def scenario_item_b_def
      scenario_defs access_defs)

text \<open>
  C2, as stated, fails. A call that leaves \<^verbatim>\<open>requests_per_minute\<close> unset takes the
  default, 25 in \<^verbatim>\<open>get_dataset_run\<close> and 1000 in \<^verbatim>\<open>run_experiment\<close>, and sleeps:
  over two run items \<^verbatim>\<open>get_dataset_run\<close> sleeps 12/5 seconds after each fetch. And
  the sleep is the last statement of the loop body, so it runs after the last item
  too: over one run item at 60 requests per minute \<^verbatim>\<open>get_dataset_run\<close> sleeps one
  second, where \<open>(K - 1) * (60 / R)\<close> is zero.
\<close>

theorem sleep_claim_counterexample:
  "fst (get_dataset_run scenario_batch ''d'' ''r'' 100 get_dataset_run_default_rpm [''output'']
          [''expected_output''])
     = Inr (PList [PDict [(PStr ''output'', PStr ''bar''), (PStr ''expected_output'', PStr ''foo'')],
                   PDict [(PStr ''output'', PStr ''bar''), (PStr ''expected_output'', PStr ''baz'')]])
   \<and> sleeps (snd (get_dataset_run scenario_batch ''d'' ''r'' 100 get_dataset_run_default_rpm
                    [''output''] [''expected_output''])) = [12 / 5, 12 / 5]
   \<and> sleeps (snd (get_dataset_run scenario_batch ''d'' ''r'' 100 get_dataset_run_default_rpm
                    [''output''] [''expected_output''])) \<noteq> []
   \<and> sleep_time_of run_experiment_default_rpm = 3 / 50
   \<and> fst (get_dataset_run scenario_services ''d'' ''r'' 100 60 [''output''] [''expected_output''])
       = Inr (PList [PDict [(PStr ''output'', PStr ''bar''), (PStr ''expected_output'', PStr ''foo'')]])
   \<and> total_sleep (snd (get_dataset_run scenario_services ''d'' ''r'' 100 60 [''output'']
                         [''expected_output''])) = 1
   \<and> total_sleep (snd (get_dataset_run scenario_services ''d'' ''r'' 100 60 [''output'']
                         [''expected_output'']))
       \<noteq> (of_nat (length [PDict [(PStr ''output'', PStr ''bar''),
                                  (PStr ''expected_output'', PStr ''foo'')]]) - 1)
           * (60 / of_int 60)"
  by (simp add: scenario_batch_get_dataset_run scenario_get_dataset_run total_sleep_def
      sleep_time_of_def run_experiment_default_rpm_def)

text \<open>
  C2, amended. In a run of the loop of \<^verbatim>\<open>run_experiment\<close> that ends normally, with
  \<^verbatim>\<open>requests_per_minute\<close> \<open>R\<close> over \<open>K\<close> processed items, the events are the \<open>K\<close>
  items' own events, each item processed once and without a sleep inside, with
  exactly one sleep of \<open>60 / R\<close> seconds between each two consecutive items when
  \<open>R > 0\<close> and no sleep before the first item: the sleeps between the items take
  \<open>(K - 1) * (60 / R)\<close> seconds. For \<open>R \<le> 0\<close> there is no sleep at all. An unset
  \<^verbatim>\<open>requests_per_minute\<close> is the default, 1000, and 25 in \<^verbatim>\<open>get_dataset_run\<close>. The
  same holds of the trace fetches of \<^verbatim>\<open>get_dataset_run\<close>, which come after the
  dataset and run-items requests, with \<open>K\<close> the number of records returned. What
  follows the last item is at most that one sleep; whether it is there is left open.
\<close>

theorem sleep_between_items:
  "(fst (experiment_loop repr_of evaluator name params (sleep_time_of rpm) pr items) = None \<longrightarrow>
      (\<exists>tail.
         snd (snd (experiment_loop repr_of evaluator name params (sleep_time_of rpm) pr items))
           = separated (sleep_events (sleep_time_of rpm))
               (item_blocks repr_of evaluator name params pr items) @ tail
         \<and> (tail = [] \<or> tail = sleep_events (sleep_time_of rpm)))
      \<and> map processed (item_blocks repr_of evaluator name params pr items)
          = map (\<lambda>item. [item]) items
      \<and> list_all (\<lambda>b. sleeps b = []) (item_blocks repr_of evaluator name params pr items)
      \<and> total_sleep (separated (sleep_events (sleep_time_of rpm))
                        (item_blocks repr_of evaluator name params pr items))
          = of_nat (length items - 1) * sleep_time_of rpm)
   \<and> (fst (get_dataset_run sv dataset_name run_name limit rpm' trace_info dataset_item_info)
        = Inr (PList records) \<longrightarrow>
      (\<exists>item_lookup run_items tail.
         length run_items = length records
         \<and> snd (get_dataset_run sv dataset_name run_name limit rpm' trace_info dataset_item_info)
             = snd (request_run_items sv dataset_name run_name limit)
               @ separated (sleep_events (sleep_time_of rpm'))
                   (map (\<lambda>ri. snd (fetch_trace sv item_lookup trace_info dataset_item_info ri))
                      run_items)
               @ tail
         \<and> (tail = [] \<or> tail = sleep_events (sleep_time_of rpm'))
         \<and> list_all
              (\<lambda>ri. sleeps (snd (fetch_trace sv item_lookup trace_info dataset_item_info ri)) = []
                    \<and> length (fetched (snd (fetch_trace sv item_lookup trace_info dataset_item_info
                                               ri))) = 1)
              run_items
         \<and> total_sleep
              (separated (sleep_events (sleep_time_of rpm'))
                 (map (\<lambda>ri. snd (fetch_trace sv item_lookup trace_info dataset_item_info ri))
                    run_items))
             = of_nat (length records - 1) * sleep_time_of rpm')
      \<and> sleeps (snd (request_run_items sv dataset_name run_name limit)) = []
      \<and> fetched (snd (request_run_items sv dataset_name run_name limit)) = [])
   \<and> sleep_time_of rpm = (if 0 < rpm then 60 / of_int rpm else 0)
   \<and> sleep_events (sleep_time_of rpm) = (if 0 < rpm then [Sleep (60 / of_int rpm)] else [])
   \<and> run_experiment_default_rpm = 1000 \<and> get_dataset_run_default_rpm = 25"
proof -
  let ?sep = "sleep_events (sleep_time_of rpm)"
  let ?blocks = "item_blocks repr_of evaluator name params pr items"
  let ?loop = "experiment_loop repr_of evaluator name params (sleep_time_of rpm) pr items"
  have a: "(\<exists>tail. snd (snd ?loop) = separated ?sep ?blocks @ tail \<and> (tail = [] \<or> tail = ?sep))
      \<and> map processed ?blocks = map (\<lambda>item. [item]) items
      \<and> list_all (\<lambda>b. sleeps b = []) ?blocks
      \<and> total_sleep (separated ?sep ?blocks) = of_nat (length items - 1) * sleep_time_of rpm"
    if ok: "fst ?loop = None"
  proof -
    note eb = experiment_loop_blocks [OF ok]
    have "snd (snd ?loop) = separated ?sep ?blocks @ (if items = [] then [] else ?sep)"
      using eb by blast
    then have "\<exists>tail. snd (snd ?loop) = separated ?sep ?blocks @ tail \<and> (tail = [] \<or> tail = ?sep)"
      by (cases "items = []") auto
    moreover have "total_sleep (separated ?sep ?blocks) = of_nat (length items - 1) * sleep_time_of rpm"
      using total_sleep_separated [OF item_blocks_no_sleep, of rpm repr_of evaluator name params pr items]
      by (simp add: length_item_blocks)
    ultimately show ?thesis using eb item_blocks_no_sleep by blast
  qed
  let ?sep' = "sleep_events (sleep_time_of rpm')"
  let ?get = "get_dataset_run sv dataset_name run_name limit rpm' trace_info dataset_item_info"
  let ?pre = "snd (request_run_items sv dataset_name run_name limit)"
  have b: "\<exists>item_lookup run_items tail.
         length run_items = length records
         \<and> snd ?get = ?pre @ separated ?sep'
                   (map (\<lambda>ri. snd (fetch_trace sv item_lookup trace_info dataset_item_info ri))
                      run_items) @ tail
         \<and> (tail = [] \<or> tail = ?sep')
         \<and> list_all
              (\<lambda>ri. sleeps (snd (fetch_trace sv item_lookup trace_info dataset_item_info ri)) = []
                    \<and> length (fetched (snd (fetch_trace sv item_lookup trace_info dataset_item_info
                                               ri))) = 1)
              run_items
         \<and> total_sleep
              (separated ?sep'
                 (map (\<lambda>ri. snd (fetch_trace sv item_lookup trace_info dataset_item_info ri))
                    run_items))
             = of_nat (length records - 1) * sleep_time_of rpm'"
    if ok: "fst ?get = Inr (PList records)"
  proof -
    from get_dataset_run_returns [OF ok]
    obtain item_lookup run_items run_traces where
      ft: "fst (fetch_traces sv item_lookup trace_info dataset_item_info (sleep_time_of rpm') run_items)
             = Inr run_traces"
      and evs: "snd ?get = ?pre @ snd (fetch_traces sv item_lookup trace_info dataset_item_info
                                         (sleep_time_of rpm') run_items)"
      and recs: "records = map (\<lambda>t. make_serializable (PDict t)) run_traces"
      by blast
    let ?bs = "map (\<lambda>ri. snd (fetch_trace sv item_lookup trace_info dataset_item_info ri)) run_items"
    have len: "length run_items = length records"
      using fetch_traces_sleeps [OF ft] recs by simp
    note fb = fetch_traces_blocks [OF ft]
    have shape: "snd ?get = ?pre @ separated ?sep' ?bs @ (if run_items = [] then [] else ?sep')"
      using fb evs by simp
    have quiet: "list_all (\<lambda>b. sleeps b = []) ?bs"
      using fb by (simp add: list_all_iff)
    have tot: "total_sleep (separated ?sep' ?bs) = of_nat (length records - 1) * sleep_time_of rpm'"
      using total_sleep_separated [OF quiet, of rpm'] len by simp
    have "\<exists>tail. snd ?get = ?pre @ separated ?sep' ?bs @ tail \<and> (tail = [] \<or> tail = ?sep')"
      using shape by (cases "run_items = []") auto
    with len fb tot show ?thesis by blast
  qed
  have c: "sleeps ?pre = [] \<and> fetched ?pre = []"
    by (simp add: sleeps_request_run_items fetched_request_run_items)
  have d: "sleep_time_of rpm = (if 0 < rpm then 60 / of_int rpm else 0)
     \<and> ?sep = (if 0 < rpm then [Sleep (60 / of_int rpm)] else [])
     \<and> run_experiment_default_rpm = 1000 \<and> get_dataset_run_default_rpm = 25"
    by (simp add: sleep_time_of_def sleep_events_def run_experiment_default_rpm_def
        get_dataset_run_default_rpm_def)
  from a b c d show ?thesis by blast
qed

theorem sleep_between_items_witness:
  "PromptRunner_init scenario_services ''p'' = Inr scenario_runner
   \<and> fst (experiment_loop scenario_repr None ''e'' (PDict []) (sleep_time_of 60) scenario_runner
            [scenario_item, scenario_item_b]) = None
   \<and> total_sleep (separated (sleep_events (sleep_time_of 60))
                     (item_blocks scenario_repr None ''e'' (PDict []) scenario_runner
                        [scenario_item, scenario_item_b])) = 1
   \<and> sleeps (snd (snd (experiment_loop scenario_repr None ''e'' (PDict []) (sleep_time_of 60)
                          scenario_runner [scenario_item, scenario_item_b]))) = [1, 1]
   \<and> fst (get_dataset_run scenario_batch ''d'' ''r'' 100 get_dataset_run_default_rpm [''output'']
            [''expected_output''])
       = Inr (PList [PDict [(PStr ''output'', PStr ''bar''), (PStr ''expected_output'', PStr ''foo'')],
                     PDict [(PStr ''output'', PStr ''bar''), (PStr ''expected_output'', PStr ''baz'')]])
   \<and> snd (get_dataset_run scenario_batch ''d'' ''r'' 100 get_dataset_run_default_rpm [''output'']
            [''expected_output''])
       = snd (request_run_items scenario_batch ''d'' ''r'' 100)
         @ [TraceGet (PStr ''t-1''), Sleep (12 / 5), TraceGet (PStr ''t-2''), Sleep (12 / 5)]"
proof -
  note inst = sleep_between_items [of scenario_repr None "''e''" "PDict []" 60 scenario_runner
      "[scenario_item, scenario_item_b]" scenario_batch "''d''" "''r''" 100
      get_dataset_run_default_rpm "[''output'']" "[''expected_output'']"
      "[PDict [(PStr ''output'', PStr ''bar''), (PStr ''expected_output'', PStr ''foo'')],
        PDict [(PStr ''output'', PStr ''bar''), (PStr ''expected_output'', PStr ''baz'')]]"]
  have ok: "fst (experiment_loop scenario_repr None ''e'' (PDict []) (sleep_time_of 60)
                   scenario_runner [scenario_item, scenario_item_b]) = None"
    unfolding scenario_experiment_loop by simp
  have t: "total_sleep (separated (sleep_events (sleep_time_of 60))
                     (item_blocks scenario_repr None ''e'' (PDict []) scenario_runner
                        [scenario_item, scenario_item_b])) = 1"
  proof -
    have "total_sleep (separated (sleep_events (sleep_time_of 60))
                     (item_blocks scenario_repr None ''e'' (PDict []) scenario_runner
                        [scenario_item, scenario_item_b]))
            = of_nat (length [scenario_item, scenario_item_b] - 1) * sleep_time_of 60"
      using inst ok by blast
    moreover have "of_nat (length [scenario_item, scenario_item_b] - 1) * sleep_time_of 60 = (1::rat)"
      by (simp add: sleep_time_of_def)
    ultimately show ?thesis by (rule trans)
  qed
  have pre: "snd (request_run_items scenario_batch ''d'' ''r'' 100)
      = [GetDataset ''d'',
         HttpGet ''https://h/api/public/dataset-run-items''
           [(PStr ''datasetId'', PStr ''ds-1''), (PStr ''runName'', PStr ''r''),
            (PStr ''limit'', PInt 100), (PStr ''response'', PStr ''json'')]]"
    by (simp add: request_run_items_def scenario_batch_def scenario_services_def)
  from t ok show ?thesis
    unfolding scenario_experiment_loop scenario_batch_get_dataset_run pre scenario_runner_init
    by simp
qed

section \<open>run\_experiment: the items processed\<close>

text \<open>
  A run of \<^verbatim>\<open>run_experiment\<close> that returns has processed the items
  \<^verbatim>\<open>dataset.items[:test_count]\<close>, each once and in the stored order: all of them
  when \<^verbatim>\<open>test_count\<close> is \<^verbatim>\<open>None\<close>, the first \<open>min N L\<close> for a count \<open>L \<ge> 0\<close>.
\<close>

lemma run_experiment_processes_slice:
  assumes "fst (run_experiment repr_of sv self experiment_name prompt_name dataset_name evaluator
                  experiment_params test_count rpm) = Inr PNone"
  shows "\<exists>ds. get_dataset sv dataset_name = Inr ds
     \<and> processed (snd (run_experiment repr_of sv self experiment_name prompt_name dataset_name
                    evaluator experiment_params test_count rpm)) = slice_to (ds_items ds) test_count"
  using run_experiment_events [OF assms] by blast

text \<open>On a runner as the constructor leaves it, \<^verbatim>\<open>run_experiment\<close> raises at once.\<close>

lemma run_experiment_after_init:
  "run_experiment repr_of sv (ExperimentRunner_init env_path) experiment_name prompt_name
     dataset_name evaluator experiment_params test_count rpm
     = (Inl (AttributeError ''env_path''), [])"
  by (simp add: run_experiment_def ExperimentRunner_init_def)

text \<open>
  C5 holds of the loop and fails of \<^verbatim>\<open>run_experiment\<close> as it is written: its first
  statement reads \<^verbatim>\<open>self.env_path\<close>, an attribute that \<^verbatim>\<open>ExperimentRunner.__init__\<close>
  never assigns. On a runner as the constructor leaves it the call raises
  \<^verbatim>\<open>AttributeError\<close> before the dataset is loaded, and no item is processed, whatever
  the dataset and the limit; in the scenario the dataset has one item and no limit is
  given.
\<close>

theorem run_experiment_missing_env_path:
  "fst (run_experiment scenario_repr scenario_services (ExperimentRunner_init PNone) ''e'' ''p'' ''d''
          None (PDict []) None run_experiment_default_rpm) = Inl (AttributeError ''env_path'')
   \<and> processed (snd (run_experiment scenario_repr scenario_services (ExperimentRunner_init PNone)
                       ''e'' ''p'' ''d'' None (PDict []) None run_experiment_default_rpm)) = []
   \<and> slice_to (ds_items scenario_dataset) None = [scenario_item]"
  by (simp add: run_experiment_def ExperimentRunner_init_def slice_to_def scenario_dataset_def)

section \<open>run\_prompt: the stored configuration and the schema\<close>

lemma run_prompt_stored_config:
  "p_config (prompt (rp_self (run_prompt repr_of self input_data config)))
     = (if config = [] then dict_del (p_config (prompt self)) (PStr ''json_schema'')
        else p_config (prompt self))"
  by (simp add: run_prompt_def Let_def split_beta split: sum.splits)

text \<open>
  C3 fails on the code. Called without a \<open>config\<close>, \<^verbatim>\<open>run_prompt\<close> binds the local
  name to the dict stored in \<^verbatim>\<open>self.prompt.config\<close> and pops \<^verbatim>\<open>json_schema\<close> from
  it. In the scenario the stored configuration has the schema before the first call and
  has lost it after; the first call renders the schema into its input, the second call
  on the same runner does not.
\<close>

theorem run_prompt_drops_stored_schema:
  "p_config (prompt scenario_runner)
     = [(PStr ''model'', PStr ''m''), (PStr ''json_schema'', PDict [(PStr ''s'', PStr ''skill'')])]
   \<and> p_config (prompt (rp_self (run_prompt scenario_repr scenario_runner
                                   (PDict [(PStr ''x'', PInt 1)]) [])))
       = [(PStr ''model'', PStr ''m'')]
   \<and> rp_input_data (run_prompt scenario_repr scenario_runner (PDict [(PStr ''x'', PInt 1)]) [])
       = PDict [(PStr ''x'', PInt 1),
                (PStr ''json_schema_str'', PStr (CHR 0x27 # ''s'' @ CHR 0x27 # '': skill''))]
   \<and> rp_input_data
         (run_prompt scenario_repr
            (rp_self (run_prompt scenario_repr scenario_runner (PDict [(PStr ''x'', PInt 1)]) []))
            (PDict [(PStr ''x'', PInt 2)]) [])
       = PDict [(PStr ''x'', PInt 2)]"
  by (simp add: scenario_run_prompt)
     (simp add: run_prompt_def inject_schema_def call_model_def scenario_defs access_defs)

text \<open>
  The same in a batch: \<^verbatim>\<open>run_experiment\<close> (on a runner that has been given an
  \<^verbatim>\<open>env_path\<close>) builds one \<^verbatim>\<open>PromptRunner\<close> for all items, so the template is
  compiled with the rendered schema for the first item only.
\<close>

lemma scenario_second_item_without_schema:
  "fst (run_experiment scenario_repr scenario_two_items \<lparr>er_env_path = Some PNone\<rparr> ''e'' ''p'' ''d''
          None (PDict []) None 0) = Inr PNone
   \<and> compiled (snd (run_experiment scenario_repr scenario_two_items \<lparr>er_env_path = Some PNone\<rparr>
                      ''e'' ''p'' ''d'' None (PDict []) None 0))
       = [[(PStr ''x'', PInt 1),
           (PStr ''json_schema_str'', PStr (CHR 0x27 # ''s'' @ CHR 0x27 # '': skill''))],
          [(PStr ''x'', PInt 2)]]"
  by (simp add: run_experiment_def PromptRunner_init_def slice_to_def run_experiment_item_def
      prompt_app_def run_prompt_def inject_schema_def call_model_def render_schema_def py_str_def
      sleep_time_of_def sleep_events_def scenario_two_items_def scenario_item_b_def
      scenario_defs access_defs)

lemma call_model_calls:
  "(\<forall>kw. Compile kw \<in> set (snd (call_model self (PDict d) cfg)) \<longrightarrow> kw = d)
   \<and> (\<forall>messages ckw. ChatCreate messages ckw \<in> set (snd (call_model self (PDict d) cfg))
         \<longrightarrow> ckw = cfg)
   \<and> (\<forall>response. fst (call_model self (PDict d) cfg) = Inr response
         \<longrightarrow> (\<exists>messages. snd (call_model self (PDict d) cfg) = [Compile d, ChatCreate messages cfg]))"
  by (auto simp: call_model_def kwargs_def split: sum.splits list.splits if_splits)

lemma call_model_client_config:
  "ChatCreate messages ckw \<in> set (snd (call_model self input_data cfg)) \<Longrightarrow> ckw = cfg"
  by (auto simp: call_model_def kwargs_def split: sum.splits list.splits if_splits pyval.splits)

lemma run_prompt_events_cases:
  "rp_events (run_prompt repr_of self input_data config) = []
   \<or> (\<exists>s i. rp_events (run_prompt repr_of self input_data config)
              = snd (call_model s i
                       (dict_del (if config = [] then p_config (prompt self) else config)
                          (PStr ''json_schema''))))"
proof (cases "config = []")
  case True
  then show ?thesis
    by (simp add: run_prompt_def Let_def split_beta split: sum.splits) blast
next
  case False
  then show ?thesis
    by (simp add: run_prompt_def Let_def split_beta split: sum.splits) blast
qed

lemma run_prompt_client_config:
  assumes "ChatCreate messages ckw \<in> set (rp_events (run_prompt repr_of self input_data config))"
  shows "dict_get ckw (PStr ''json_schema'') = None"
proof -
  let ?cfg' = "dict_del (if config = [] then p_config (prompt self) else config) (PStr ''json_schema'')"
  from assms run_prompt_events_cases [of repr_of self input_data config]
  obtain s i where "ChatCreate messages ckw \<in> set (snd (call_model s i ?cfg'))"
    by auto
  then have "ckw = ?cfg'" by (rule call_model_client_config)
  then show ?thesis by (simp add: dict_get_del)
qed

text \<open>
  C4, as the specification states it, fails: the schema is rendered only under the
  guard \<^verbatim>\<open>if json_schema:\<close>. A configuration whose \<^verbatim>\<open>json_schema\<close> is the empty
  mapping adds nothing to the input payload, and one whose \<^verbatim>\<open>json_schema\<close> is a text
  makes \<^verbatim>\<open>run_prompt\<close> raise at \<^verbatim>\<open>json_schema.items()\<close> before any call.
\<close>

theorem schema_not_rendered:
  "dict_get scenario_empty_schema (PStr ''json_schema'') = Some (PDict [])
   \<and> rp_input_data (run_prompt scenario_repr scenario_runner (PDict [(PStr ''x'', PInt 1)])
                      scenario_empty_schema)
       = PDict [(PStr ''x'', PInt 1)]
   \<and> getitem (rp_input_data (run_prompt scenario_repr scenario_runner (PDict [(PStr ''x'', PInt 1)])
                               scenario_empty_schema)) ''json_schema_str''
       \<noteq> Inr (PStr (render_schema scenario_repr []))
   \<and> rp_events (run_prompt scenario_repr scenario_runner (PDict [(PStr ''x'', PInt 1)])
                   scenario_empty_schema)
       = [Compile [(PStr ''x'', PInt 1)],
          ChatCreate (PList [PDict [(PStr ''role'', PStr ''user''),
                                    (PStr ''content'', PDict [(PStr ''x'', PInt 1)])]])
            [(PStr ''model'', PStr ''m'')]]
   \<and> dict_get scenario_text_schema (PStr ''json_schema'') = Some (PStr ''skill: str'')
   \<and> rp_result (run_prompt scenario_repr scenario_runner (PDict [(PStr ''x'', PInt 1)])
                   scenario_text_schema)
       = Inl (AttributeError ''items'')
   \<and> rp_events (run_prompt scenario_repr scenario_runner (PDict [(PStr ''x'', PInt 1)])
                   scenario_text_schema) = []"
  by (simp add: run_prompt_def inject_schema_def call_model_def scenario_empty_schema_def
      scenario_text_schema_def scenario_defs access_defs)

text \<open>
  C4, amended. For every configuration whose schema description is a non-empty
  mapping, one invocation of \<^verbatim>\<open>run_prompt\<close> on a dict of inputs (1) stores in the
  input payload, under \<^verbatim>\<open>json_schema_str\<close>, the schema rendered as one string of
  \<^verbatim>\<open>'key': description\<close> pairs joined by \<^verbatim>\<open>", "\<close>, and compiles the template with
  that payload, and (2) passes to the inference client a configuration without the
  key \<^verbatim>\<open>json_schema\<close>. When the invocation returns, both calls have been made.
\<close>

theorem schema_rendered_and_removed:
  assumes "dict_get (if config = [] then p_config (prompt self) else config) (PStr ''json_schema'')
             = Some (PDict kvs)"
    and "kvs \<noteq> []"
  shows "rp_input_data (run_prompt repr_of self (PDict d) config)
           = PDict (dict_set d (PStr ''json_schema_str'') (PStr (render_schema repr_of kvs)))
     \<and> (\<forall>kw. Compile kw \<in> set (rp_events (run_prompt repr_of self (PDict d) config))
           \<longrightarrow> kw = dict_set d (PStr ''json_schema_str'') (PStr (render_schema repr_of kvs)))
     \<and> (\<forall>messages ckw.
           ChatCreate messages ckw \<in> set (rp_events (run_prompt repr_of self (PDict d) config))
           \<longrightarrow> dict_get ckw (PStr ''json_schema'') = None)
     \<and> (\<forall>response. rp_result (run_prompt repr_of self (PDict d) config) = Inr response
           \<longrightarrow> (\<exists>messages ckw.
                  rp_events (run_prompt repr_of self (PDict d) config)
                    = [Compile (dict_set d (PStr ''json_schema_str'')
                                  (PStr (render_schema repr_of kvs))),
                       ChatCreate messages ckw]))"
proof -
  let ?d' = "dict_set d (PStr ''json_schema_str'') (PStr (render_schema repr_of kvs))"
  let ?cfg = "if config = [] then p_config (prompt self) else config"
  let ?cfg' = "dict_del ?cfg (PStr ''json_schema'')"
  let ?self' = "if config = [] then self\<lparr>prompt := (prompt self)\<lparr>p_config := ?cfg'\<rparr>\<rparr> else self"
  let ?out = "run_prompt repr_of self (PDict d) config"
  have inj: "inject_schema repr_of (PDict kvs) (PDict d) = Inr (PDict ?d')"
    using assms(2) by (simp add: inject_schema_def setitem_def)
  have inp: "rp_input_data ?out = PDict ?d'"
    using assms(1) inj by (simp add: run_prompt_def Let_def split_beta)
  have evs: "rp_events ?out = snd (call_model ?self' (PDict ?d') ?cfg')"
    using assms(1) inj by (simp add: run_prompt_def Let_def split_beta)
  have res: "rp_result ?out = fst (call_model ?self' (PDict ?d') ?cfg')"
    using assms(1) inj by (simp add: run_prompt_def Let_def split_beta)
  note calls = call_model_calls [of ?self' ?d' ?cfg']
  have c1: "\<forall>kw. Compile kw \<in> set (rp_events ?out) \<longrightarrow> kw = ?d'"
    using calls by (simp only: evs) blast
  have c2: "\<forall>messages ckw. ChatCreate messages ckw \<in> set (rp_events ?out)
              \<longrightarrow> dict_get ckw (PStr ''json_schema'') = None"
    using run_prompt_client_config by blast
  have c3: "\<forall>response. rp_result ?out = Inr response
              \<longrightarrow> (\<exists>messages ckw. rp_events ?out = [Compile ?d', ChatCreate messages ckw])"
    using calls by (simp only: evs res) blast
  from inp c1 c2 c3 show ?thesis by blast
qed

theorem schema_rendered_and_removed_witness:
  "dict_get (p_config (prompt scenario_runner)) (PStr ''json_schema'')
     = Some (PDict [(PStr ''s'', PStr ''skill'')])
   \<and> render_schema scenario_repr [(PStr ''s'', PStr ''skill'')] = CHR 0x27 # ''s'' @ CHR 0x27 # '': skill''
   \<and> rp_input_data (run_prompt scenario_repr scenario_runner (PDict [(PStr ''x'', PInt 1)]) [])
       = PDict [(PStr ''x'', PInt 1),
                (PStr ''json_schema_str'', PStr (CHR 0x27 # ''s'' @ CHR 0x27 # '': skill''))]
   \<and> rp_result (run_prompt scenario_repr scenario_runner (PDict [(PStr ''x'', PInt 1)]) [])
       = Inr (PStr ''bar'')"
proof -
  have h1: "dict_get (if ([]::pydict) = [] then p_config (prompt scenario_runner) else [])
              (PStr ''json_schema'') = Some (PDict [(PStr ''s'', PStr ''skill'')])"
    by (simp add: scenario_runner_def scenario_prompt_def)
  have h2: "[(PStr ''s'', PStr ''skill'')] \<noteq> []" by simp
  have r: "render_schema scenario_repr [(PStr ''s'', PStr ''skill'')]
             = CHR 0x27 # ''s'' @ CHR 0x27 # '': skill''"
    by (simp add: render_schema_def py_str_def)
  have "rp_input_data (run_prompt scenario_repr scenario_runner (PDict [(PStr ''x'', PInt 1)]) [])
          = PDict (dict_set [(PStr ''x'', PInt 1)] (PStr ''json_schema_str'')
                     (PStr (render_schema scenario_repr [(PStr ''s'', PStr ''skill'')])))"
    using schema_rendered_and_removed [OF h1 h2, of scenario_repr "[(PStr ''x'', PInt 1)]"]
    by blast
  with h1 r show ?thesis by (simp add: scenario_run_prompt)
qed

end
